theory Spec2Isabelle
  imports Complex_Main "HOL-Library.Log_Nat" "HOL-Library.Multiset"
begin

section \<open>Data model (models/student.model.js)\<close>

text \<open>
  Instants are JavaScript \<open>Date\<close> values, read as milliseconds since the epoch.
  Object ids are compared through their string form.  The percentage is a JavaScript
  number, a double: it is modelled as the rational number the double denotes, and the
  division and the multiplication that compute it round as doubles do.  The methods are
  followed up to the document they hand to \<open>save\<close>; the clock reading \<open>now\<close> and the
  id of a pushed record are arguments.
\<close>

type_synonym instant = int
type_synonym objid = string

datatype att_status = Present | Absent | Left | Entered

record attendance_record =
  rec_id :: objid
  date :: instant
  status :: att_status
  entryTime :: "instant option"
  leaveTime :: "instant option"
  verifiedBy :: "objid option"
  scanLocation :: string
  deviceInfo :: "string option"

text \<open>The ledger fields of the student document; the contact fields play no part in
  the methods below and are left out.\<close>

record student =
  attendanceCount :: int
  attendanceHistory :: "attendance_record list"
  lastAttendance :: "instant option"
  attendancePercentage :: rat

datatype error = NotFound

subsection \<open>Arguments and their defaults\<close>

text \<open>An argument of a call: left out (\<open>undefined\<close>), \<open>null\<close>, or a value.  A parameter
  default replaces only \<open>undefined\<close>.\<close>

datatype 'a js_arg = Undefined | Null | Value 'a

fun paramDefault :: "'a js_arg \<Rightarrow> 'a option \<Rightarrow> 'a option" where
  "paramDefault Undefined d = d"
| "paramDefault Null d = None"
| "paramDefault (Value v) d = Some v"

text \<open>\<open>a || d\<close> for a string argument and a string \<open>d\<close>: the argument when it is a
  non-empty string.\<close>

fun orElse :: "string js_arg \<Rightarrow> string \<Rightarrow> string" where
  "orElse (Value v) d = (if v = [] then d else v)"
| "orElse Undefined d = d"
| "orElse Null d = d"

subsection \<open>Double arithmetic\<close>

text \<open>Rounding to the nearest integer, ties to the even one.\<close>

definition roundHalfEven :: "rat \<Rightarrow> int" where
  "roundHalfEven y =
     (let f = \<lfloor>y\<rfloor>; d = y - of_int f
      in if d < 1 / 2 then f else if 1 / 2 < d then f + 1
         else if even f then f else f + 1)"

text \<open>The binary exponent of a positive rational \<open>x\<close>: the \<open>e\<close> with
  \<open>2^e \<le> x < 2^(e+1)\<close>, found from the bit lengths of numerator and denominator.\<close>

definition binaryExponent :: "rat \<Rightarrow> int" where
  "binaryExponent x =
     (let k = bitlen (fst (quotient_of x)) - bitlen (snd (quotient_of x))
      in if 2 powi k \<le> x then k else k - 1)"

text \<open>The double nearest to \<open>x\<close>: a significand of 53 bits, ties to even.  The exponent
  range is not modelled: the quotients and products below are 0 or lie between
  \<open>1 / n\<close> and 200 for a history of \<open>n\<close> records, far inside the range of normal
  doubles.\<close>

definition toDouble :: "rat \<Rightarrow> rat" where
  "toDouble x =
     (if x = 0 then 0
      else let ulp = 2 powi (binaryExponent \<bar>x\<bar> - 52)
           in sgn x * (of_int (roundHalfEven (\<bar>x\<bar> / ulp)) * ulp))"

text \<open>\<open>(present / total) * 100\<close> on numbers: the quotient is rounded, then the
  product.\<close>

definition percentOf :: "nat \<Rightarrow> nat \<Rightarrow> rat" where
  "percentOf presentN totalN = toDouble (toDouble (of_nat presentN / of_nat totalN) * 100)"

subsection \<open>Calendar days\<close>

definition msPerDay :: int where
  "msPerDay = 86400000"

text \<open>The local time zone is a fixed offset \<open>tz\<close> from UTC, in milliseconds (a change
  of the offset during the year is not modelled).  \<open>toDateString\<close> prints the local
  year, month and day, so two instants have the same string exactly when they have the
  same local day number.\<close>

definition toDateString :: "int \<Rightarrow> instant \<Rightarrow> int" where
  "toDateString tz t = (t + tz) div msPerDay"

text \<open>\<open>new Date(now.getFullYear(), now.getMonth(), now.getDate())\<close>: local midnight.\<close>

definition localMidnight :: "int \<Rightarrow> instant \<Rightarrow> instant" where
  "localMidnight tz t = toDateString tz t * msPerDay - tz"

text \<open>\<open>d.setHours(23, 59, 59, 999)\<close>: the last millisecond of the local day of \<open>d\<close>.\<close>

definition endOfDay :: "int \<Rightarrow> instant \<Rightarrow> instant" where
  "endOfDay tz t = localMidnight tz t + (23 * 3600000 + 59 * 60000 + 59 * 1000 + 999)"

text \<open>\<open>d.toISOString().split('T')[0]\<close>: the UTC calendar day.\<close>

definition isoDay :: "instant \<Rightarrow> int" where
  "isoDay t = t div msPerDay"

subsection \<open>Array helpers\<close>

text \<open>\<open>Array.prototype.findIndex\<close>; the result \<open>-1\<close> is \<open>None\<close>.\<close>

fun findIndex :: "('a \<Rightarrow> bool) \<Rightarrow> 'a list \<Rightarrow> nat option" where
  "findIndex P [] = None"
| "findIndex P (x # xs) = (if P x then Some 0 else map_option Suc (findIndex P xs))"

text \<open>\<open>Array.prototype.sort\<close> with a comparator: the sort is stable, an element moves
  behind another only when the comparator is positive.\<close>

fun insort_cmp :: "('a \<Rightarrow> 'a \<Rightarrow> int) \<Rightarrow> 'a \<Rightarrow> 'a list \<Rightarrow> 'a list" where
  "insort_cmp cmp x [] = [x]"
| "insort_cmp cmp x (y # ys) =
     (if cmp x y \<le> 0 then x # y # ys else y # insort_cmp cmp x ys)"

definition sort_cmp :: "('a \<Rightarrow> 'a \<Rightarrow> int) \<Rightarrow> 'a list \<Rightarrow> 'a list" where
  "sort_cmp cmp xs = foldr (insort_cmp cmp) xs []"

text \<open>\<open>Array.prototype.slice(start, end)\<close> on integers: a negative index counts from
  the end, and both are clamped to the array.\<close>

definition slice_index :: "nat \<Rightarrow> int \<Rightarrow> nat" where
  "slice_index n k = (if k < 0 then nat (max (int n + k) 0) else min (nat k) n)"

definition slice :: "'a list \<Rightarrow> int \<Rightarrow> int \<Rightarrow> 'a list" where
  "slice xs start end =
     (let from = slice_index (length xs) start; upto = slice_index (length xs) end
      in take (upto - from) (drop from xs))"

text \<open>\<open>xs.splice(i, 1)\<close>: the array without its element at index \<open>i\<close>.\<close>

definition splice1 :: "nat \<Rightarrow> 'a list \<Rightarrow> 'a list" where
  "splice1 i xs = take i xs @ drop (Suc i) xs"

text \<open>Truthiness of a nullable string: \<open>null\<close> and the empty string are falsy.\<close>

fun truthy :: "string option \<Rightarrow> bool" where
  "truthy None = False"
| "truthy (Some s) = (s \<noteq> [])"

section \<open>The ledger mutator: markAttendance\<close>

definition countsAsPresent :: "attendance_record \<Rightarrow> bool" where
  "countsAsPresent r = (status r = Present \<or> status r = Entered)"

text \<open>The recomputation at the end of markAttendance:
  \<open>totalRecords > 0 ? (presentRecords / totalRecords) * 100 : 0\<close>.\<close>

definition percentageOf :: "attendance_record list \<Rightarrow> rat" where
  "percentageOf h =
     (let totalRecords = length h; presentRecords = length (filter countsAsPresent h)
      in if totalRecords > 0 then percentOf presentRecords totalRecords else 0)"

definition isToday :: "int \<Rightarrow> instant \<Rightarrow> attendance_record \<Rightarrow> bool" where
  "isToday tz now r = (toDateString tz (date r) = toDateString tz (localMidnight tz now))"

text \<open>The branch for a day without a record.  \<open>newId\<close> is the id the document array
  gives the pushed subdocument; \<open>adminId\<close>, \<open>devInfo\<close> and \<open>scanLoc\<close> are the
  parameters after their defaults.\<close>

definition createRecord ::
  "instant \<Rightarrow> objid \<Rightarrow> att_status \<Rightarrow> objid option \<Rightarrow> string option \<Rightarrow> string option
     \<Rightarrow> attendance_record" where
  "createRecord now newId st adminId devInfo scanLoc =
     (let newRecord = \<lparr> rec_id = newId, date = now, status = st,
            entryTime = None, leaveTime = None, verifiedBy = adminId,
            scanLocation = (if truthy scanLoc then the scanLoc else ''Main Entrance''),
            deviceInfo = devInfo \<rparr>
      in if st = Entered \<or> st = Present then newRecord\<lparr>entryTime := Some now\<rparr>
         else if st = Left then newRecord\<lparr>leaveTime := Some now\<rparr>
         else newRecord)"

text \<open>The branch for a day that already has a record: the update of that record.\<close>

definition updateRecord ::
  "instant \<Rightarrow> att_status \<Rightarrow> objid option \<Rightarrow> string option \<Rightarrow> string option
     \<Rightarrow> attendance_record \<Rightarrow> attendance_record" where
  "updateRecord now st adminId devInfo scanLoc todayRecord =
     (let r1 = (if st = Left then todayRecord\<lparr>leaveTime := Some now, status := st\<rparr>
                else if st = Entered \<or> st = Present then
                  (let r = (if entryTime todayRecord = None
                            then todayRecord\<lparr>entryTime := Some now\<rparr> else todayRecord)
                   in if status r \<noteq> Left then r\<lparr>status := st\<rparr> else r)
                else todayRecord);
          r2 = r1\<lparr>verifiedBy := (if truthy adminId then adminId else verifiedBy r1)\<rparr>;
          r3 = (if truthy scanLoc then r2\<lparr>scanLocation := the scanLoc\<rparr> else r2)
      in if truthy devInfo then r3\<lparr>deviceInfo := devInfo\<rparr> else r3)"

text \<open>The method; its signature is
  \<open>(status, adminId = null, deviceInfo = null, scanLocation = 'Main Entrance')\<close>.\<close>

definition markAttendance ::
  "int \<Rightarrow> instant \<Rightarrow> objid \<Rightarrow> att_status \<Rightarrow> objid js_arg \<Rightarrow> string js_arg \<Rightarrow> string js_arg
     \<Rightarrow> student \<Rightarrow> student" where
  "markAttendance tz now newId st adminIdArg deviceInfoArg scanLocationArg s =
     (let adminId = paramDefault adminIdArg None;
          devInfo = paramDefault deviceInfoArg None;
          scanLoc = paramDefault scanLocationArg (Some ''Main Entrance'');
          s1 =
        (case findIndex (isToday tz now) (attendanceHistory s) of
           None \<Rightarrow>
             s\<lparr> attendanceCount :=
                   (if st = Present then attendanceCount s + 1 else attendanceCount s),
                attendanceHistory :=
                   attendanceHistory s @ [createRecord now newId st adminId devInfo scanLoc] \<rparr>
         | Some i \<Rightarrow>
             (let todayRecord = attendanceHistory s ! i
              in s\<lparr> attendanceCount :=
                      (if st = Present \<and> leaveTime todayRecord = None
                       then attendanceCount s + 1 else attendanceCount s),
                    attendanceHistory :=
                      (attendanceHistory s)
                        [i := updateRecord now st adminId devInfo scanLoc todayRecord] \<rparr>))
      in s1\<lparr> lastAttendance := Some now,
             attendancePercentage := percentageOf (attendanceHistory s1) \<rparr>)"

section \<open>getAttendanceStats\<close>

record range_stats =
  total :: nat
  present :: nat
  absent :: nat
  percentage :: rat

text \<open>The body of the \<open>forEach\<close>: a switch on the status with two cases.\<close>

fun tally :: "attendance_record \<Rightarrow> range_stats \<Rightarrow> range_stats" where
  "tally r st =
     (case status r of
        Present \<Rightarrow> st\<lparr>present := present st + 1\<rparr>
      | Absent \<Rightarrow> st\<lparr>absent := absent st + 1\<rparr>
      | _ \<Rightarrow> st)"

definition getAttendanceStats :: "instant \<Rightarrow> instant \<Rightarrow> student \<Rightarrow> range_stats" where
  "getAttendanceStats startDate endDate s =
     (let records = filter (\<lambda>r. date r \<ge> startDate \<and> date r \<le> endDate) (attendanceHistory s);
          stats0 = \<lparr> total = length records, present = 0, absent = 0, percentage = 0 \<rparr>;
          stats1 = fold tally records stats0
      in stats1\<lparr> percentage :=
           (if total stats1 > 0 then percentOf (present stats1) (total stats1)
            else 0) \<rparr>)"

section \<open>The record editor\<close>

definition clearAttendanceHistory :: "student \<Rightarrow> student" where
  "clearAttendanceHistory s =
     s\<lparr> attendanceHistory := [], attendanceCount := 0,
        attendancePercentage := 0, lastAttendance := None \<rparr>"

definition deleteAttendanceRecord ::
  "objid \<Rightarrow> student \<Rightarrow> error + (attendance_record \<times> student)" where
  "deleteAttendanceRecord recordId s =
     (case findIndex (\<lambda>r. rec_id r = recordId) (attendanceHistory s) of
        None \<Rightarrow> Inl NotFound
      | Some recordIndex \<Rightarrow>
          (let deletedRecord = attendanceHistory s ! recordIndex;
               h = splice1 recordIndex (attendanceHistory s);
               cnt = (if status deletedRecord = Present \<or> status deletedRecord = Entered
                      then max 0 (attendanceCount s - 1) else attendanceCount s);
               pct = (if length h > 0
                      then percentOf (length (filter countsAsPresent h)) (length h)
                      else 0);
               lastAtt = (if length h > 0
                          then Some (date (hd (sort_cmp (\<lambda>a b. date b - date a) h)))
                          else None)
           in Inr (deletedRecord,
                   s\<lparr> attendanceHistory := h, attendanceCount := cnt,
                      attendancePercentage := pct, lastAttendance := lastAtt \<rparr>)))"

section \<open>The history query: getFilteredAttendanceHistory\<close>

text \<open>The \<open>sortBy\<close> option: the date (the default), a status, time or location field
  of the records, or a name that is no field of theirs (both reads are then
  \<open>undefined\<close>, and every comparison is false).\<close>

datatype sort_field =
  SortDate | SortStatus | SortEntryTime | SortLeaveTime | SortScanLocation | SortOther

text \<open>\<open>sortOrder === 'asc' ? 1 : -1\<close>: every other value sorts descending.\<close>

datatype sort_order = Asc | Desc

text \<open>\<open>limit\<close> after \<open>parseInt(limit, 10)\<close>: \<open>null\<close> (no pagination), not a number, or
  an integer.  \<open>offset\<close> after \<open>parseInt(offset, 10)\<close> is an integer or nothing, and
  nothing counts as 0.\<close>

datatype limit_arg = NoLimit | LimitNaN | Limit int

text \<open>A date option after \<open>new Date(...)\<close>: absent (or an empty string, which is
  falsy), a string that does not parse (an invalid date, whose comparisons are all
  false), or an instant.\<close>

datatype date_arg = NoDate | InvalidDate | DateAt instant

record query_options =
  startDate :: date_arg
  endDate :: date_arg
  limit :: limit_arg
  offset :: "int option"
  sortBy :: sort_field
  sortOrder :: sort_order

record history_stats =
  totalCount :: nat
  filteredCount :: nat
  presentCount :: nat
  absentCount :: nat
  cachedPercentage :: rat

record history_page =
  records :: "attendance_record list"
  totalRecords :: nat
  stats :: history_stats

text \<open>The string of a status, for the comparison \<open>a[sortBy] < b[sortBy]\<close>.\<close>

fun statusString :: "att_status \<Rightarrow> string" where
  "statusString Present = ''present''"
| "statusString Absent = ''absent''"
| "statusString Left = ''left''"
| "statusString Entered = ''entered''"

text \<open>Lexicographic order on strings by character code.\<close>

fun str_less :: "string \<Rightarrow> string \<Rightarrow> bool" where
  "str_less [] [] = False"
| "str_less [] (y # ys) = True"
| "str_less (x # xs) [] = False"
| "str_less (x # xs) (y # ys) =
     (of_char x < (of_char y :: nat) \<or> (x = y \<and> str_less xs ys))"

text \<open>A nullable date in a numeric comparison: \<open>null\<close> converts to 0.\<close>

fun dateNumber :: "instant option \<Rightarrow> int" where
  "dateNumber None = 0"
| "dateNumber (Some t) = t"

definition field_less :: "sort_field \<Rightarrow> attendance_record \<Rightarrow> attendance_record \<Rightarrow> bool" where
  "field_less f a b =
     (case f of
        SortDate \<Rightarrow> date a < date b
      | SortStatus \<Rightarrow> str_less (statusString (status a)) (statusString (status b))
      | SortEntryTime \<Rightarrow> dateNumber (entryTime a) < dateNumber (entryTime b)
      | SortLeaveTime \<Rightarrow> dateNumber (leaveTime a) < dateNumber (leaveTime b)
      | SortScanLocation \<Rightarrow> str_less (scanLocation a) (scanLocation b)
      | SortOther \<Rightarrow> False)"

definition compareRecords ::
  "sort_field \<Rightarrow> sort_order \<Rightarrow> attendance_record \<Rightarrow> attendance_record \<Rightarrow> int" where
  "compareRecords f ord a b =
     (let order = (if ord = Asc then 1 else - 1)
      in if f = SortDate then order * (date a - date b)
         else if field_less f a b then - 1 * order
         else if field_less f b a then 1 * order
         else 0)"

definition filterHistory :: "int \<Rightarrow> query_options \<Rightarrow> attendance_record list \<Rightarrow> attendance_record list" where
  "filterHistory tz opts h =
     (let h1 = (case startDate opts of
                  NoDate \<Rightarrow> h
                | InvalidDate \<Rightarrow> filter (\<lambda>r. False) h
                | DateAt start \<Rightarrow> filter (\<lambda>r. date r \<ge> start) h)
      in case endDate opts of
           NoDate \<Rightarrow> h1
         | InvalidDate \<Rightarrow> filter (\<lambda>r. False) h1
         | DateAt e \<Rightarrow> filter (\<lambda>r. date r \<le> endOfDay tz e) h1)"

definition paginate :: "query_options \<Rightarrow> attendance_record list \<Rightarrow> attendance_record list" where
  "paginate opts h =
     (case limit opts of
        NoLimit \<Rightarrow> h
      | LimitNaN \<Rightarrow> []
      | Limit pageSize \<Rightarrow>
          (let start = (case offset opts of None \<Rightarrow> 0 | Some n \<Rightarrow> n)
           in slice h start (start + pageSize)))"

definition getFilteredAttendanceHistory :: "int \<Rightarrow> query_options \<Rightarrow> student \<Rightarrow> history_page" where
  "getFilteredAttendanceHistory tz opts s =
     (let filteredHistory =
            sort_cmp (compareRecords (sortBy opts) (sortOrder opts))
              (filterHistory tz opts (attendanceHistory s));
          totalCnt = length filteredHistory;
          paginatedHistory = paginate opts filteredHistory
      in \<lparr> records = paginatedHistory,
           totalRecords = totalCnt,
           stats = \<lparr> totalCount = length (attendanceHistory s),
                     filteredCount = totalCnt,
                     presentCount = length (filter countsAsPresent (attendanceHistory s)),
                     absentCount = length (filter (\<lambda>r. status r = Absent) (attendanceHistory s)),
                     cachedPercentage = attendancePercentage s \<rparr> \<rparr>)"

section \<open>The QR scan controller\<close>

text \<open>The status the scan controller chooses from today's record.\<close>

definition statusToSave :: "attendance_record option \<Rightarrow> att_status" where
  "statusToSave today =
     (case today of
        None \<Rightarrow> Entered
      | Some todayRecord \<Rightarrow>
          if leaveTime todayRecord \<noteq> None then Entered
          else if entryTime todayRecord \<noteq> None then Left
          else Entered)"

text \<open>The controller from the lookup of today's record on: \<open>currentScanTime\<close> is the
  controller's clock reading, \<open>now\<close> the one markAttendance takes afterwards,
  \<open>devInfo\<close> and \<open>scanLoc\<close> the fields of the request body, and \<open>headerAgent\<close> the
  request's user-agent header.\<close>

definition scanRecord :: "instant \<Rightarrow> student \<Rightarrow> attendance_record option" where
  "scanRecord currentScanTime s =
     map_option (\<lambda>i. attendanceHistory s ! i)
       (findIndex (\<lambda>entry. isoDay (date entry) = isoDay currentScanTime) (attendanceHistory s))"

definition qrMarkAttendance ::
  "int \<Rightarrow> instant \<Rightarrow> instant \<Rightarrow> objid \<Rightarrow> string js_arg \<Rightarrow> string js_arg \<Rightarrow> string js_arg
     \<Rightarrow> student \<Rightarrow> student" where
  "qrMarkAttendance tz currentScanTime now newId devInfo headerAgent scanLoc s =
     (let st = statusToSave (scanRecord currentScanTime s);
          userAgent = orElse devInfo (orElse headerAgent ''Unknown Device'');
          location = orElse scanLoc (orElse scanLoc ''Main Entrance'')
      in markAttendance tz now newId st Null (Value userAgent) (Value location) s)"

section \<open>Sequences of operations\<close>

text \<open>A student document as registration creates it: the defaults of the schema.\<close>

definition newStudent :: student where
  "newStudent = \<lparr> attendanceCount = 0, attendanceHistory = [],
                   lastAttendance = None, attendancePercentage = 0 \<rparr>"

text \<open>One call of markAttendance: the clock reading, the id of the record it may push,
  and the four arguments.\<close>

record mark_call =
  callTime :: instant
  callId :: objid
  callStatus :: att_status
  callAdmin :: "objid js_arg"
  callDevice :: "string js_arg"
  callLocation :: "string js_arg"

definition applyCall :: "int \<Rightarrow> mark_call \<Rightarrow> student \<Rightarrow> student" where
  "applyCall tz c s =
     markAttendance tz (callTime c) (callId c) (callStatus c) (callAdmin c)
       (callDevice c) (callLocation c) s"

fun markSequence :: "int \<Rightarrow> mark_call list \<Rightarrow> student \<Rightarrow> student" where
  "markSequence tz [] s = s"
| "markSequence tz (c # cs) s = markSequence tz cs (applyCall tz c s)"

text \<open>The three mutating operations.  A deletion that throws leaves the document as it
  was.\<close>

datatype ledger_op = MarkOp mark_call | DeleteOp objid | ClearOp

fun applyOp :: "int \<Rightarrow> ledger_op \<Rightarrow> student \<Rightarrow> student" where
  "applyOp tz (MarkOp c) s = applyCall tz c s"
| "applyOp tz (DeleteOp recordId) s =
     (case deleteAttendanceRecord recordId s of Inl e \<Rightarrow> s | Inr (r, s') \<Rightarrow> s')"
| "applyOp tz ClearOp s = clearAttendanceHistory s"

fun runOps :: "int \<Rightarrow> ledger_op list \<Rightarrow> student \<Rightarrow> student" where
  "runOps tz [] s = s"
| "runOps tz (opn # ops) s = runOps tz ops (applyOp tz opn s)"

section \<open>The specification's notions\<close>

text \<open>The records of a history that fall on local day \<open>d\<close>.\<close>

definition recordsOn :: "int \<Rightarrow> int \<Rightarrow> attendance_record list \<Rightarrow> attendance_record list" where
  "recordsOn tz d h = filter (\<lambda>r. toDateString tz (date r) = d) h"

text \<open>The date of the chronologically latest record, or nothing for an empty history.\<close>

fun latestDate :: "attendance_record list \<Rightarrow> instant option" where
  "latestDate [] = None"
| "latestDate (r # rs) =
     (case latestDate rs of None \<Rightarrow> Some (date r) | Some m \<Rightarrow> Some (max (date r) m))"

text \<open>The percentage the specification asks for, as an exact number: 100 times the
  number of records with status \<open>present\<close> or \<open>entered\<close> over the number of records, 0
  for an empty history.\<close>

definition presentOrEnteredCount :: "attendance_record list \<Rightarrow> nat" where
  "presentOrEnteredCount h = length (filter (\<lambda>r. status r = Present \<or> status r = Entered) h)"

definition specPercentage :: "attendance_record list \<Rightarrow> rat" where
  "specPercentage h =
     (if length h = 0 then 0 else 100 * of_nat (presentOrEnteredCount h) / of_nat (length h))"

text \<open>The same percentage as doubles compute it: the quotient of the two counts rounded
  to a double, times 100, rounded to a double.\<close>

definition roundedPercentage :: "attendance_record list \<Rightarrow> rat" where
  "roundedPercentage h =
     (if length h = 0 then 0
      else toDouble (toDouble (of_nat (presentOrEnteredCount h) / of_nat (length h)) * 100))"

text \<open>The records getAttendanceStats looks at: those dated from \<open>a\<close> to \<open>b\<close>, both
  inclusive.\<close>

definition inRange :: "instant \<Rightarrow> instant \<Rightarrow> student \<Rightarrow> attendance_record list" where
  "inRange a b s = filter (\<lambda>r. a \<le> date r \<and> date r \<le> b) (attendanceHistory s)"

text \<open>The bounds of a query, read on one record: at or after the start instant, and at
  or before 23:59:59.999 of the local day of the end instant.\<close>

definition withinBounds :: "int \<Rightarrow> query_options \<Rightarrow> attendance_record \<Rightarrow> bool" where
  "withinBounds tz opts r =
     ((case startDate opts of NoDate \<Rightarrow> True | InvalidDate \<Rightarrow> False
        | DateAt a \<Rightarrow> a \<le> date r) \<and>
      (case endDate opts of NoDate \<Rightarrow> True | InvalidDate \<Rightarrow> False
        | DateAt e \<Rightarrow> date r \<le> localMidnight tz e + 86399999))"

section \<open>Example ledgers\<close>

text \<open>A day at UTC offset 0: a scan in, a scan out, and an administrator marking the
  student present, twice, with no device and no location passed.\<close>

definition scanIn :: mark_call where
  "scanIn = \<lparr> callTime = 1000, callId = ''r1'', callStatus = Entered, callAdmin = Null,
              callDevice = Value ''scanner'', callLocation = Value ''Gate'' \<rparr>"

definition scanOut :: mark_call where
  "scanOut = \<lparr> callTime = 2000, callId = ''r2'', callStatus = Left, callAdmin = Null,
               callDevice = Value ''scanner'', callLocation = Value ''Gate'' \<rparr>"

definition adminPresent :: mark_call where
  "adminPresent = \<lparr> callTime = 3000, callId = ''r3'', callStatus = Present,
                    callAdmin = Value ''a1'', callDevice = Undefined, callLocation = Undefined \<rparr>"

definition adminPresentAgain :: mark_call where
  "adminPresentAgain = \<lparr> callTime = 4000, callId = ''r4'', callStatus = Present,
                         callAdmin = Value ''a1'', callDevice = Undefined, callLocation = Undefined \<rparr>"

definition leftStudent :: student where
  "leftStudent = markSequence 0 [scanIn, scanOut] newStudent"

definition presentStudent :: student where
  "presentStudent = markSequence 0 [adminPresent] newStudent"

text \<open>A scan on the next day, and the student present on day 0 and entered on day 1.\<close>

definition nextDayScan :: mark_call where
  "nextDayScan = \<lparr> callTime = 86401000, callId = ''r5'', callStatus = Entered,
                   callAdmin = Null, callDevice = Value ''scanner'', callLocation = Value ''Gate'' \<rparr>"

definition twoDayStudent :: student where
  "twoDayStudent = markSequence 0 [adminPresent, nextDayScan] newStudent"

text \<open>A query for the records from 10:00 of day 0 on.\<close>

definition lateStartQuery :: query_options where
  "lateStartQuery = \<lparr> startDate = DateAt 36000000, endDate = NoDate, limit = NoLimit,
                      offset = None, sortBy = SortDate, sortOrder = Desc \<rparr>"

text \<open>A history with one record a day for the days 0, 1, 2, ...: the first eleven
  \<open>present\<close>, the later ones \<open>absent\<close>; and the student who has the first nineteen.\<close>

definition dayRecord :: "nat \<Rightarrow> attendance_record" where
  "dayRecord k =
     \<lparr> rec_id = replicate (Suc k) CHR ''d'', date = int k * 86400000 + 1000,
       status = (if k < 11 then Present else Absent),
       entryTime = (if k < 11 then Some (int k * 86400000 + 1000) else None),
       leaveTime = None, verifiedBy = Some ''a1'', scanLocation = ''Main Entrance'',
       deviceInfo = None \<rparr>"

definition nineteenDayStudent :: student where
  "nineteenDayStudent =
     \<lparr> attendanceCount = 11, attendanceHistory = map dayRecord [0..<19],
       lastAttendance = Some (18 * 86400000 + 1000), attendancePercentage = percentOf 11 19 \<rparr>"

definition threeDayStudent :: student where
  "threeDayStudent =
     \<lparr> attendanceCount = 1, attendanceHistory = [dayRecord 10, dayRecord 11, dayRecord 12],
       lastAttendance = Some (12 * 86400000 + 1000), attendancePercentage = percentOf 1 3 \<rparr>"

text \<open>At UTC offset +5:30 (19800000 ms): a scan at 05:00 local time of day 1, which is
  23:30 UTC of day 0; the next scan comes at 13:00 local time, 07:30 UTC of day 1.\<close>

definition earlyScan :: mark_call where
  "earlyScan = \<lparr> callTime = 84600000, callId = ''r7'', callStatus = Entered,
                 callAdmin = Null, callDevice = Value ''scanner'',
                 callLocation = Value ''Gate'' \<rparr>"

definition earlyStudent :: student where
  "earlyStudent = markSequence 19800000 [earlyScan] newStudent"

section \<open>Helper facts\<close>

lemma findIndex_None: "findIndex P xs = None \<longleftrightarrow> (\<forall>x \<in> set xs. \<not> P x)"
  by (induction xs) auto

lemma findIndex_Some:
  "findIndex P xs = Some i \<Longrightarrow> i < length xs \<and> P (xs ! i) \<and> (\<forall>j < i. \<not> P (xs ! j))"
proof (induction xs arbitrary: i)
  case Nil
  then show ?case by simp
next
  case (Cons x xs)
  show ?case
  proof (cases "P x")
    case True
    with Cons.prems show ?thesis by simp
  next
    case False
    with Cons.prems obtain k where k: "findIndex P xs = Some k" "i = Suc k"
      by auto
    from Cons.IH[OF k(1)] have ih: "k < length xs" "P (xs ! k)" "\<forall>j < k. \<not> P (xs ! j)"
      by auto
    show ?thesis
      using ih False k(2) by (auto simp: nth_Cons split: nat.splits)
  qed
qed

lemma toDateString_localMidnight:
  "toDateString tz (localMidnight tz t) = toDateString tz t"
  by (simp add: toDateString_def localMidnight_def msPerDay_def)

lemma fold_tally_total: "total (fold tally rs st) = total st"
  by (induction rs arbitrary: st) (auto split: att_status.splits)

lemma fold_tally_present:
  "present (fold tally rs st) = present st + length (filter (\<lambda>r. status r = Present) rs)"
  by (induction rs arbitrary: st) (auto split: att_status.splits)

lemma fold_tally_absent:
  "absent (fold tally rs st) = absent st + length (filter (\<lambda>r. status r = Absent) rs)"
  by (induction rs arbitrary: st) (auto split: att_status.splits)

lemma status_partition:
  "length (filter (\<lambda>r. status r = Present) rs) + length (filter (\<lambda>r. status r = Absent) rs)
   + length (filter (\<lambda>r. status r = Entered \<or> status r = Left) rs) = length rs"
proof (induction rs)
  case Nil
  then show ?case by simp
next
  case (Cons r rs)
  then show ?case by (cases "status r") auto
qed

subsection \<open>Rounding\<close>

lemma roundHalfEven_error: "\<bar>of_int (roundHalfEven y) - y\<bar> \<le> 1 / 2"
proof -
  define f where "f = \<lfloor>y\<rfloor>"
  define d where "d = y - of_int f"
  have lo: "0 \<le> d" and hi: "d < 1"
    unfolding d_def f_def by linarith+
  have y: "y = of_int f + d" by (simp add: d_def)
  have r: "roundHalfEven y =
      (if d < 1 / 2 then f else if 1 / 2 < d then f + 1 else if even f then f else f + 1)"
    by (simp add: roundHalfEven_def Let_def f_def d_def)
  have "\<bar>of_int (roundHalfEven y) - (of_int f + d)\<bar> \<le> 1 / 2"
    unfolding r using lo hi by auto
  then show ?thesis
    using y by simp
qed

lemma binaryExponent_le:
  assumes "0 < x"
  shows "2 powi (binaryExponent x) \<le> x"
proof -
  obtain a b where q: "quotient_of x = (a, b)" by (cases "quotient_of x")
  then have b: "0 < b" and x: "x = of_int a / of_int b"
    using quotient_of_denom_pos[OF q] quotient_of_div[OF q] by simp_all
  have a: "0 < a"
    using assms b x by (simp add: zero_less_divide_iff)
  let ?k = "bitlen a - bitlen b"
  have la: "(2::rat) ^ nat (bitlen a - 1) \<le> of_int a"
    using bitlen_bounds[OF a] by (metis of_int_le_iff of_int_numeral of_int_power)
  have ub: "of_int b < (2::rat) ^ nat (bitlen b)"
    using bitlen_bounds[OF b] by (metis of_int_less_iff of_int_numeral of_int_power)
  have ba: "1 \<le> bitlen a" using a bitlen_eq_zero_iff[of a] bitlen_nonneg[of a] by linarith
  have eq: "?k - 1 = (bitlen a - 1) - bitlen b" by simp
  have "(2::rat) powi (?k - 1) = 2 powi (bitlen a - 1) / 2 powi (bitlen b)"
    unfolding eq by (rule power_int_diff) simp
  also have "\<dots> = 2 ^ nat (bitlen a - 1) / 2 ^ nat (bitlen b)"
    using ba bitlen_nonneg[of b] by (simp add: power_int_nonneg_exp)
  also have "\<dots> \<le> of_int a / of_int b"
    using la ub a b by (intro frac_le) simp_all
  finally have "(2::rat) powi (?k - 1) \<le> x" using x by simp
  then show ?thesis
    using q by (simp add: binaryExponent_def Let_def)
qed

lemma toDouble_error: "\<bar>toDouble x - x\<bar> \<le> \<bar>x\<bar> / 2 ^ 53"
proof (cases "x = 0")
  case True
  then show ?thesis by (simp add: toDouble_def)
next
  case False
  define e where "e = binaryExponent \<bar>x\<bar>"
  define ulp :: rat where "ulp = 2 powi (e - 52)"
  define m where "m = roundHalfEven (\<bar>x\<bar> / ulp)"
  have pos: "0 < ulp" by (simp add: ulp_def)
  have fx: "toDouble x = sgn x * (of_int m * ulp)"
    using False by (simp add: toDouble_def Let_def e_def ulp_def m_def)
  have "toDouble x - x = sgn x * (of_int m * ulp - \<bar>x\<bar>)"
    by (simp add: fx right_diff_distrib mult_sgn_abs)
  then have "\<bar>toDouble x - x\<bar> = \<bar>sgn x\<bar> * \<bar>of_int m * ulp - \<bar>x\<bar>\<bar>"
    by (simp add: abs_mult)
  also have "\<dots> = \<bar>of_int m * ulp - \<bar>x\<bar>\<bar>"
    using False by (simp add: abs_sgn_eq)
  also have "of_int m * ulp - \<bar>x\<bar> = (of_int m - \<bar>x\<bar> / ulp) * ulp"
    using pos by (simp add: left_diff_distrib)
  also have "\<bar>(of_int m - \<bar>x\<bar> / ulp) * ulp\<bar> = \<bar>of_int m - \<bar>x\<bar> / ulp\<bar> * ulp"
    using pos by (simp add: abs_mult)
  also have "\<dots> \<le> (1 / 2) * ulp"
    using roundHalfEven_error[of "\<bar>x\<bar> / ulp"] pos unfolding m_def
    by (intro mult_right_mono) simp_all
  also have "ulp = 2 powi e / 2 ^ 52"
    using power_int_diff[of "2::rat" e 52] by (simp add: ulp_def)
  also have "(1 / 2) * ((2::rat) powi e / 2 ^ 52) = 2 powi e / 2 ^ 53"
    by simp
  also have "\<dots> \<le> \<bar>x\<bar> / 2 ^ 53"
    using binaryExponent_le[of "\<bar>x\<bar>"] False unfolding e_def
    by (intro divide_right_mono) simp_all
  finally show ?thesis .
qed

lemma percentage_error:
  assumes "0 \<le> r"
  shows "\<bar>toDouble (toDouble r * 100) - 100 * r\<bar> \<le> 100 * r / 2 ^ 51"
proof -
  define u :: rat where "u = 1 / 2 ^ 53"
  define r1 where "r1 = toDouble r"
  have e1: "\<bar>r1 - r\<bar> \<le> r * u"
    using toDouble_error[of r] assms by (simp add: r1_def u_def)
  have "\<bar>r1\<bar> \<le> \<bar>r1 - r\<bar> + r"
    using assms by linarith
  with e1 have r1: "\<bar>r1\<bar> \<le> r * (1 + u)"
    by (simp add: algebra_simps)
  have e2: "\<bar>toDouble (r1 * 100) - r1 * 100\<bar> \<le> \<bar>r1\<bar> * 100 * u"
    using toDouble_error[of "r1 * 100"] by (simp add: u_def abs_mult)
  define d1 where "d1 = toDouble (r1 * 100) - r1 * 100"
  define d2 where "d2 = r1 - r"
  have split: "toDouble (r1 * 100) - 100 * r = d1 + 100 * d2"
    by (simp add: d1_def d2_def)
  have "\<bar>d1 + 100 * d2\<bar> \<le> \<bar>d1\<bar> + \<bar>100 * d2\<bar>"
    by (rule abs_triangle_ineq)
  moreover have "\<bar>100 * d2\<bar> = 100 * \<bar>d2\<bar>"
    by (simp add: abs_mult)
  ultimately have "\<bar>toDouble (r1 * 100) - 100 * r\<bar> \<le> \<bar>d1\<bar> + 100 * \<bar>d2\<bar>"
    unfolding split by simp
  also have "\<dots> \<le> \<bar>r1\<bar> * 100 * u + 100 * (r * u)"
  proof (rule add_mono)
    show "\<bar>d1\<bar> \<le> \<bar>r1\<bar> * 100 * u"
      using e2 by (simp add: d1_def)
    show "100 * \<bar>d2\<bar> \<le> 100 * (r * u)"
      using e1 by (simp add: d2_def)
  qed
  also have "\<dots> \<le> (r * (1 + u)) * 100 * u + 100 * (r * u)"
    using r1 by (simp add: u_def)
  also have "\<dots> = 100 * r * (u * (2 + u))"
    by (simp add: algebra_simps)
  also have "\<dots> \<le> 100 * r * (1 / 2 ^ 51)"
    using assms by (intro mult_left_mono) (simp_all add: u_def)
  finally show ?thesis by (simp add: r1_def)
qed

lemma toDouble_zero: "toDouble 0 = 0"
  by (simp add: toDouble_def)

lemma toDouble_one: "toDouble 1 = 1"
  by code_simp

lemma toDouble_hundred: "toDouble 100 = 100"
  by code_simp

lemma percentOf_none: "percentOf 0 n = 0"
  by (simp add: percentOf_def toDouble_zero)

lemma percentOf_all: "0 < n \<Longrightarrow> percentOf n n = 100"
  by (simp add: percentOf_def toDouble_one toDouble_hundred)

lemma percentOf_11_20: "percentOf 11 20 = 7740561859543041 / 140737488355328"
  by code_simp

lemma percentOf_1_3: "percentOf 1 3 = 2345624805922133 / 70368744177664"
  by code_simp

lemma percentOf_error:
  "\<bar>percentOf p n - 100 * of_nat p / of_nat n\<bar> \<le> (100 * of_nat p / of_nat n) / 2 ^ 51"
  using percentage_error[of "of_nat p / of_nat n"] by (simp add: percentOf_def)

subsection \<open>The ledger\<close>

lemma isToday_iff: "isToday tz now r \<longleftrightarrow> toDateString tz (date r) = toDateString tz now"
  by (simp add: isToday_def toDateString_localMidnight)

lemma markAttendance_history_new:
  "findIndex (isToday tz now) (attendanceHistory s) = None \<Longrightarrow>
   attendanceHistory (markAttendance tz now newId st adminId devInfo scanLoc s)
     = attendanceHistory s
         @ [createRecord now newId st (paramDefault adminId None) (paramDefault devInfo None)
              (paramDefault scanLoc (Some ''Main Entrance''))]"
  by (simp add: markAttendance_def Let_def)

lemma markAttendance_history_upd:
  "findIndex (isToday tz now) (attendanceHistory s) = Some i \<Longrightarrow>
   attendanceHistory (markAttendance tz now newId st adminId devInfo scanLoc s)
     = (attendanceHistory s)
         [i := updateRecord now st (paramDefault adminId None) (paramDefault devInfo None)
                 (paramDefault scanLoc (Some ''Main Entrance'')) (attendanceHistory s ! i)]"
  by (simp add: markAttendance_def Let_def)

lemma markAttendance_count_new:
  "findIndex (isToday tz now) (attendanceHistory s) = None \<Longrightarrow>
   attendanceCount (markAttendance tz now newId st adminId devInfo scanLoc s)
     = (if st = Present then attendanceCount s + 1 else attendanceCount s)"
  by (simp add: markAttendance_def Let_def)

lemma markAttendance_count_upd:
  "findIndex (isToday tz now) (attendanceHistory s) = Some i \<Longrightarrow>
   attendanceCount (markAttendance tz now newId st adminId devInfo scanLoc s)
     = (if st = Present \<and> leaveTime (attendanceHistory s ! i) = None
        then attendanceCount s + 1 else attendanceCount s)"
  by (simp add: markAttendance_def Let_def)

lemma markAttendance_lastAttendance:
  "lastAttendance (markAttendance tz now newId st adminId devInfo scanLoc s) = Some now"
  by (simp add: markAttendance_def Let_def split: option.splits)

lemma markAttendance_percentage:
  "attendancePercentage (markAttendance tz now newId st adminId devInfo scanLoc s)
     = percentageOf (attendanceHistory (markAttendance tz now newId st adminId devInfo scanLoc s))"
  by (simp add: markAttendance_def Let_def split: option.splits)

lemma createRecord_date: "date (createRecord now newId st adminId devInfo scanLoc) = now"
  by (simp add: createRecord_def Let_def)

lemma updateRecord_frame:
  "rec_id (updateRecord now st adminId devInfo scanLoc r) = rec_id r \<and>
   date (updateRecord now st adminId devInfo scanLoc r) = date r"
  by (simp add: updateRecord_def Let_def)

lemma updateRecord_sticky:
  "status r = Left \<Longrightarrow> st = Entered \<or> st = Present \<Longrightarrow>
   status (updateRecord now st adminId devInfo scanLoc r) = Left \<and>
   leaveTime (updateRecord now st adminId devInfo scanLoc r) = leaveTime r \<and>
   entryTime (updateRecord now st adminId devInfo scanLoc r)
     = (if entryTime r = None then Some now else entryTime r)"
  by (auto simp add: updateRecord_def Let_def)

lemma updateRecord_absent:
  "updateRecord now Absent adminId devInfo scanLoc r
     = r\<lparr> verifiedBy := (if truthy adminId then adminId else verifiedBy r),
          scanLocation := (if truthy scanLoc then the scanLoc else scanLocation r),
          deviceInfo := (if truthy devInfo then devInfo else deviceInfo r) \<rparr>"
  by (simp add: updateRecord_def Let_def)

lemma recordsOn_length:
  "length (recordsOn tz d h) = length (filter (\<lambda>t. toDateString tz t = d) (map date h))"
  by (simp add: recordsOn_def filter_map comp_def)

lemma recordsOn_new:
  assumes "findIndex (isToday tz now) (attendanceHistory s) = None"
  shows "recordsOn tz d (attendanceHistory (markAttendance tz now newId st adminId devInfo scanLoc s))
         = (if toDateString tz now = d
            then [createRecord now newId st (paramDefault adminId None)
                    (paramDefault devInfo None) (paramDefault scanLoc (Some ''Main Entrance''))]
            else recordsOn tz d (attendanceHistory s))"
proof -
  from assms have none:
    "\<forall>r \<in> set (attendanceHistory s). toDateString tz (date r) \<noteq> toDateString tz now"
    by (simp add: findIndex_None isToday_iff)
  then have "toDateString tz now = d \<Longrightarrow> recordsOn tz d (attendanceHistory s) = []"
    by (auto simp: recordsOn_def filter_empty_conv)
  then show ?thesis
    by (simp add: markAttendance_history_new[OF assms] recordsOn_def createRecord_date)
qed

lemma recordsOn_upd:
  assumes "findIndex (isToday tz now) (attendanceHistory s) = Some i"
  shows "length (recordsOn tz d
           (attendanceHistory (markAttendance tz now newId st adminId devInfo scanLoc s)))
         = length (recordsOn tz d (attendanceHistory s))"
proof -
  have "map date ((attendanceHistory s)
          [i := updateRecord now st (paramDefault adminId None) (paramDefault devInfo None)
                  (paramDefault scanLoc (Some ''Main Entrance'')) (attendanceHistory s ! i)])
        = map date (attendanceHistory s)"
    using findIndex_Some[OF assms]
    by (simp add: list_eq_iff_nth_eq nth_list_update updateRecord_frame)
  then show ?thesis
    by (simp add: markAttendance_history_upd[OF assms] recordsOn_length)
qed

lemma recordsOn_step:
  assumes "length (recordsOn tz d (attendanceHistory s)) \<le> 1"
  shows "length (recordsOn tz d
           (attendanceHistory (markAttendance tz now newId st adminId devInfo scanLoc s))) \<le> 1"
proof (cases "findIndex (isToday tz now) (attendanceHistory s)")
  case None
  then show ?thesis using assms by (simp add: recordsOn_new)
next
  case (Some i)
  then show ?thesis using assms by (simp add: recordsOn_upd)
qed

lemma recordsOn_sequence:
  "length (recordsOn tz d (attendanceHistory s)) \<le> 1 \<Longrightarrow>
   length (recordsOn tz d (attendanceHistory (markSequence tz calls s))) \<le> 1"
proof (induction calls arbitrary: s)
  case Nil
  then show ?case by simp
next
  case (Cons c cs)
  have "length (recordsOn tz d (attendanceHistory (applyCall tz c s))) \<le> 1"
    unfolding applyCall_def by (rule recordsOn_step[OF Cons.prems])
  from Cons.IH[OF this] show ?case by simp
qed

lemma percentageOf_rounded: "percentageOf h = roundedPercentage h"
  by (simp add: percentageOf_def roundedPercentage_def presentOrEnteredCount_def Let_def
      percentOf_def countsAsPresent_def[abs_def])

lemma percentage_expr:
  "(if length h > 0 then percentOf (length (filter countsAsPresent h)) (length h) else 0)
     = roundedPercentage h"
  using percentageOf_rounded[of h] by (simp add: percentageOf_def Let_def)

lemma roundedPercentage_near:
  "\<bar>roundedPercentage h - specPercentage h\<bar> \<le> specPercentage h / 2 ^ 51"
  using percentOf_error[of "presentOrEnteredCount h" "length h"]
  by (simp add: roundedPercentage_def specPercentage_def percentOf_def)

lemma roundedPercentage_all:
  "h \<noteq> [] \<Longrightarrow> presentOrEnteredCount h = length h \<Longrightarrow> roundedPercentage h = 100"
  using percentOf_all[of "length h"] by (simp add: roundedPercentage_def percentOf_def)

lemma roundedPercentage_none:
  "presentOrEnteredCount h = 0 \<Longrightarrow> roundedPercentage h = 0"
  by (simp add: roundedPercentage_def toDouble_zero)

lemma latestDate_Max:
  "h \<noteq> [] \<Longrightarrow> latestDate h = Some (Max (date ` set h))"
proof (induction h)
  case Nil
  then show ?case by simp
next
  case (Cons r rs)
  show ?case
  proof (cases "rs = []")
    case True
    then show ?thesis by simp
  next
    case False
    with Cons.IH have "latestDate rs = Some (Max (date ` set rs))" by simp
    then show ?thesis using False by simp
  qed
qed

lemma set_insort_cmp: "set (insort_cmp cmp x xs) = insert x (set xs)"
  by (induction xs) auto

lemma set_sort_cmp: "set (sort_cmp cmp xs) = set xs"
  by (induction xs) (simp_all add: sort_cmp_def set_insort_cmp)

lemma length_insort_cmp: "length (insort_cmp cmp x xs) = Suc (length xs)"
  by (induction xs) auto

lemma length_sort_cmp: "length (sort_cmp cmp xs) = length xs"
  by (induction xs) (simp_all add: sort_cmp_def length_insort_cmp)

lemma hd_insort_desc:
  assumes "xs \<noteq> [] \<Longrightarrow> \<forall>r \<in> set xs. date r \<le> date (hd xs)"
  shows "\<forall>r \<in> set (insort_cmp (\<lambda>a b. date b - date a) x xs).
           date r \<le> date (hd (insort_cmp (\<lambda>a b. date b - date a) x xs))"
proof (cases xs)
  case Nil
  then show ?thesis by simp
next
  case (Cons y ys)
  with assms have "\<forall>r \<in> set (y # ys). date r \<le> date y" by simp
  then show ?thesis
    using Cons by (auto simp: set_insort_cmp)
qed

lemma hd_sort_desc:
  "xs \<noteq> [] \<Longrightarrow> \<forall>r \<in> set (sort_cmp (\<lambda>a b. date b - date a) xs).
       date r \<le> date (hd (sort_cmp (\<lambda>a b. date b - date a) xs))"
proof (induction xs)
  case Nil
  then show ?case by simp
next
  case (Cons x xs)
  have step: "sort_cmp (\<lambda>a b. date b - date a) (x # xs)
      = insort_cmp (\<lambda>a b. date b - date a) x (sort_cmp (\<lambda>a b. date b - date a) xs)"
    by (simp add: sort_cmp_def)
  have "sort_cmp (\<lambda>a b. date b - date a) xs \<noteq> [] \<Longrightarrow>
      \<forall>r \<in> set (sort_cmp (\<lambda>a b. date b - date a) xs).
        date r \<le> date (hd (sort_cmp (\<lambda>a b. date b - date a) xs))"
    using Cons.IH set_sort_cmp[of "\<lambda>a b. date b - date a" xs] by (cases xs) auto
  from hd_insort_desc[OF this] show ?case
    unfolding step .
qed

lemma hd_sort_desc_latest:
  assumes "xs \<noteq> []"
  shows "Some (date (hd (sort_cmp (\<lambda>a b. date b - date a) xs))) = latestDate xs"
proof -
  let ?ys = "sort_cmp (\<lambda>a b. date b - date a) xs"
  have ne: "?ys \<noteq> []"
    using assms length_sort_cmp[of "\<lambda>a b. date b - date a" xs] by (cases ?ys) auto
  then have "hd ?ys \<in> set ?ys" by simp
  then have mem: "date (hd ?ys) \<in> date ` set xs"
    by (simp add: set_sort_cmp)
  have "\<forall>t \<in> date ` set xs. t \<le> date (hd ?ys)"
    using hd_sort_desc[OF assms] by (simp add: set_sort_cmp)
  then have "Max (date ` set xs) = date (hd ?ys)"
    using mem by (intro Max_eqI) auto
  then show ?thesis
    by (simp add: latestDate_Max[OF assms])
qed

lemma latest_expr:
  "(if length h > 0 then Some (date (hd (sort_cmp (\<lambda>a b. date b - date a) h))) else None)
     = latestDate h"
proof (cases "h = []")
  case True
  then show ?thesis by simp
next
  case False
  then show ?thesis using hd_sort_desc_latest[OF False] by simp
qed

lemma delete_NotFound:
  "deleteAttendanceRecord recordId s = Inl NotFound
     \<longleftrightarrow> (\<forall>r \<in> set (attendanceHistory s). rec_id r \<noteq> recordId)"
  by (auto simp: deleteAttendanceRecord_def Let_def findIndex_None[symmetric]
      split: option.splits)

lemma delete_success:
  assumes "findIndex (\<lambda>r. rec_id r = recordId) (attendanceHistory s) = Some i"
  shows "deleteAttendanceRecord recordId s =
     Inr (attendanceHistory s ! i,
          s\<lparr> attendanceHistory := take i (attendanceHistory s) @ drop (Suc i) (attendanceHistory s),
             attendanceCount :=
               (if status (attendanceHistory s ! i) = Present
                   \<or> status (attendanceHistory s ! i) = Entered
                then max 0 (attendanceCount s - 1) else attendanceCount s),
             attendancePercentage :=
               roundedPercentage (take i (attendanceHistory s) @ drop (Suc i) (attendanceHistory s)),
             lastAttendance :=
               latestDate (take i (attendanceHistory s) @ drop (Suc i) (attendanceHistory s)) \<rparr>)"
  unfolding deleteAttendanceRecord_def Let_def splice1_def assms option.case
    percentage_expr latest_expr
  by simp

subsection \<open>The example ledgers, evaluated\<close>

lemmas ledger_defs =
  markAttendance_def applyCall_def newStudent_def isToday_def toDateString_def
  localMidnight_def msPerDay_def createRecord_def updateRecord_def percentageOf_def
  countsAsPresent_def Let_def percentOf_none percentOf_all

lemma leftStudent_eval:
  "leftStudent =
     \<lparr> attendanceCount = 0,
       attendanceHistory =
         [\<lparr> rec_id = ''r1'', date = 1000, status = Left, entryTime = Some 1000,
            leaveTime = Some 2000, verifiedBy = None, scanLocation = ''Gate'',
            deviceInfo = Some ''scanner'' \<rparr>],
       lastAttendance = Some 2000, attendancePercentage = 0 \<rparr>"
  by (simp add: leftStudent_def scanIn_def scanOut_def ledger_defs)

lemma presentStudent_eval:
  "presentStudent =
     \<lparr> attendanceCount = 1,
       attendanceHistory =
         [\<lparr> rec_id = ''r3'', date = 3000, status = Present, entryTime = Some 3000,
            leaveTime = None, verifiedBy = Some ''a1'', scanLocation = ''Main Entrance'',
            deviceInfo = None \<rparr>],
       lastAttendance = Some 3000, attendancePercentage = 100 \<rparr>"
  by (simp add: presentStudent_def adminPresent_def ledger_defs)

lemma twoDayStudent_eval:
  "twoDayStudent =
     \<lparr> attendanceCount = 1,
       attendanceHistory =
         [\<lparr> rec_id = ''r3'', date = 3000, status = Present, entryTime = Some 3000,
            leaveTime = None, verifiedBy = Some ''a1'', scanLocation = ''Main Entrance'',
            deviceInfo = None \<rparr>,
          \<lparr> rec_id = ''r5'', date = 86401000, status = Entered, entryTime = Some 86401000,
            leaveTime = None, verifiedBy = None, scanLocation = ''Gate'',
            deviceInfo = Some ''scanner'' \<rparr>],
       lastAttendance = Some 86401000, attendancePercentage = 100 \<rparr>"
  by (simp add: twoDayStudent_def adminPresent_def nextDayScan_def ledger_defs)

lemma latestDate_snoc:
  assumes "\<forall>r \<in> set h. date r \<le> date n"
  shows "latestDate (h @ [n]) = Some (date n)"
proof -
  have "Max (date ` set (h @ [n])) = date n"
    using assms by (intro Max_eqI) auto
  then show ?thesis
    using latestDate_Max[of "h @ [n]"] by simp
qed

lemma delete_cases:
  "deleteAttendanceRecord recordId s = Inr (r, s') \<Longrightarrow>
   \<exists>i. findIndex (\<lambda>r. rec_id r = recordId) (attendanceHistory s) = Some i"
  by (cases "findIndex (\<lambda>r. rec_id r = recordId) (attendanceHistory s)")
    (simp_all add: deleteAttendanceRecord_def)

lemma delete_percentage:
  assumes "deleteAttendanceRecord recordId s = Inr (r, s')"
  shows "attendancePercentage s' = roundedPercentage (attendanceHistory s')"
proof -
  from delete_cases[OF assms] obtain i
    where i: "findIndex (\<lambda>r. rec_id r = recordId) (attendanceHistory s) = Some i" ..
  from delete_success[OF i] assms show ?thesis by auto
qed

lemma delete_lastAttendance:
  assumes "deleteAttendanceRecord recordId s = Inr (r, s')"
  shows "lastAttendance s' = latestDate (attendanceHistory s')"
proof -
  from delete_cases[OF assms] obtain i
    where i: "findIndex (\<lambda>r. rec_id r = recordId) (attendanceHistory s) = Some i" ..
  from delete_success[OF i] assms show ?thesis by auto
qed

lemma delete_count_nonneg:
  assumes "deleteAttendanceRecord recordId s = Inr (r, s')" and "0 \<le> attendanceCount s"
  shows "0 \<le> attendanceCount s'"
proof -
  from delete_cases[OF assms(1)] obtain i
    where i: "findIndex (\<lambda>r. rec_id r = recordId) (attendanceHistory s) = Some i" ..
  from delete_success[OF i] assms show ?thesis by auto
qed

lemma markAttendance_count_nonneg:
  "0 \<le> attendanceCount s \<Longrightarrow>
   0 \<le> attendanceCount (markAttendance tz now newId st adminId devInfo scanLoc s)"
  by (cases "findIndex (isToday tz now) (attendanceHistory s)")
    (simp_all add: markAttendance_count_new markAttendance_count_upd)

text \<open>The invariant of the cached fields that every operation re-establishes.\<close>

lemma applyOp_invariant:
  assumes "0 \<le> attendanceCount s"
    and "attendancePercentage s = roundedPercentage (attendanceHistory s)"
  shows "0 \<le> attendanceCount (applyOp tz opn s) \<and>
         attendancePercentage (applyOp tz opn s)
           = roundedPercentage (attendanceHistory (applyOp tz opn s))"
proof (cases opn)
  case (MarkOp c)
  then show ?thesis
    using assms(1)
    by (simp add: applyCall_def markAttendance_count_nonneg markAttendance_percentage
        percentageOf_rounded)
next
  case (DeleteOp recordId)
  show ?thesis
  proof (cases "deleteAttendanceRecord recordId s")
    case (Inl e)
    then show ?thesis using DeleteOp assms by simp
  next
    case (Inr p)
    obtain r s' where p: "p = (r, s')" by (cases p)
    with Inr have d: "deleteAttendanceRecord recordId s = Inr (r, s')" by simp
    show ?thesis
      using DeleteOp d delete_percentage[OF d] delete_count_nonneg[OF d assms(1)] by simp
  qed
next
  case ClearOp
  then show ?thesis
    by (simp add: clearAttendanceHistory_def roundedPercentage_def)
qed

lemma runOps_invariant:
  "0 \<le> attendanceCount s \<Longrightarrow>
   attendancePercentage s = roundedPercentage (attendanceHistory s) \<Longrightarrow>
   0 \<le> attendanceCount (runOps tz ops s) \<and>
   attendancePercentage (runOps tz ops s) = roundedPercentage (attendanceHistory (runOps tz ops s))"
proof (induction ops arbitrary: s)
  case Nil
  then show ?case by simp
next
  case (Cons opn ops)
  from applyOp_invariant[OF Cons.prems, of tz opn]
  have "0 \<le> attendanceCount (applyOp tz opn s)"
    and "attendancePercentage (applyOp tz opn s)
           = roundedPercentage (attendanceHistory (applyOp tz opn s))"
    by simp_all
  from Cons.IH[OF this] show ?case by simp
qed

lemma mset_insort_cmp: "mset (insort_cmp cmp x xs) = add_mset x (mset xs)"
  by (induction xs) auto

lemma mset_sort_cmp: "mset (sort_cmp cmp xs) = mset xs"
  by (induction xs) (simp_all add: sort_cmp_def mset_insort_cmp)

lemma endOfDay_eq: "endOfDay tz e = localMidnight tz e + 86399999"
  by (simp add: endOfDay_def)

lemma filterHistory_bounds: "filterHistory tz opts h = filter (withinBounds tz opts) h"
  by (cases "startDate opts"; cases "endDate opts")
    (simp_all add: filterHistory_def withinBounds_def[abs_def] endOfDay_eq Let_def)

lemma filterHistory_pagination:
  "filterHistory tz (opts\<lparr>limit := l, offset := off\<rparr>) h = filterHistory tz opts h"
  by (simp add: filterHistory_def)

lemma withinBounds_pagination:
  "withinBounds tz (opts\<lparr>limit := l, offset := off\<rparr>) = withinBounds tz opts"
  "withinBounds tz (opts\<lparr>limit := l\<rparr>) = withinBounds tz opts"
  by (simp_all add: withinBounds_def[abs_def])

lemma day_le_iff:
  fixes x q :: int
  shows "x div 86400000 \<le> q \<longleftrightarrow> x < q * 86400000 + 86400000"
proof -
  define xd where "xd = x div 86400000"
  define xm where "xm = x mod 86400000"
  have x: "x = xd * 86400000 + xm" and lo: "0 \<le> xm" and hi: "xm < 86400000"
    by (simp_all add: xd_def xm_def)
  have "xd \<le> q \<longleftrightarrow> xd * 86400000 + xm < q * 86400000 + 86400000"
    using lo hi by linarith
  then show ?thesis
    unfolding xd_def[symmetric] using x by simp
qed

lemma endOfDay_day:
  "t \<le> localMidnight tz e + 86399999 \<longleftrightarrow> toDateString tz t \<le> toDateString tz e"
proof -
  define q where "q = (e + tz) div 86400000"
  have "(t + tz) div 86400000 \<le> q \<longleftrightarrow> t + tz < q * 86400000 + 86400000"
    by (rule day_le_iff)
  also have "\<dots> \<longleftrightarrow> t \<le> q * 86400000 - tz + 86399999"
    by linarith
  finally show ?thesis
    by (simp add: localMidnight_def toDateString_def msPerDay_def q_def)
qed

section \<open>Scan-intent resolution\<close>

text \<open>The status the controller chooses, over the states of the record it found.\<close>

lemma statusToSave_cases:
  "statusToSave None = Entered \<and>
   statusToSave (Some (r\<lparr>leaveTime := Some l\<rparr>)) = Entered \<and>
   statusToSave (Some (r\<lparr>entryTime := Some e, leaveTime := None\<rparr>)) = Left \<and>
   statusToSave (Some (r\<lparr>entryTime := None, leaveTime := None\<rparr>)) = Entered"
  by (simp add: statusToSave_def)

lemma earlyStudent_eval:
  "earlyStudent =
     \<lparr> attendanceCount = 0,
       attendanceHistory =
         [\<lparr> rec_id = ''r7'', date = 84600000, status = Entered, entryTime = Some 84600000,
            leaveTime = None, verifiedBy = None, scanLocation = ''Gate'',
            deviceInfo = Some ''scanner'' \<rparr>],
       lastAttendance = Some 84600000, attendancePercentage = 100 \<rparr>"
  by (simp add: earlyStudent_def earlyScan_def ledger_defs)

text \<open>
  Claim C4.  The scan controller is to choose \<open>left\<close> when today's record has an entry
  time and no leave time.  It looks today's record up by the UTC date of the scan, where
  the ledger takes the local date.  At the offset +5:30, a student scanned in at 05:00
  local time; at 13:00 of the same local day the ledger resolves that record as today's,
  open, but the controller finds no record, chooses \<open>entered\<close>, and markAttendance
  leaves the record \<open>entered\<close> with no leave time.
\<close>

theorem scan_intent_utc_day:
  "findIndex (isToday 19800000 113400000) (attendanceHistory earlyStudent) = Some 0 \<and>
   entryTime (attendanceHistory earlyStudent ! 0) = Some 84600000 \<and>
   leaveTime (attendanceHistory earlyStudent ! 0) = None \<and>
   scanRecord 113400000 earlyStudent = None \<and>
   statusToSave (scanRecord 113400000 earlyStudent) = Entered \<and>
   attendanceHistory
       (qrMarkAttendance 19800000 113400000 113400000 ''r8'' (Value ''scanner'') Undefined
          (Value ''Gate'') earlyStudent)
     = [\<lparr> rec_id = ''r7'', date = 84600000, status = Entered, entryTime = Some 84600000,
          leaveTime = None, verifiedBy = None, scanLocation = ''Gate'',
          deviceInfo = Some ''scanner'' \<rparr>]"
proof -
  have today: "findIndex (isToday 19800000 113400000) (attendanceHistory earlyStudent) = Some 0"
    by (simp add: earlyStudent_eval isToday_def toDateString_def localMidnight_def msPerDay_def)
  have none: "scanRecord 113400000 earlyStudent = None"
    by (simp add: scanRecord_def earlyStudent_eval isoDay_def msPerDay_def)
  have st: "statusToSave (scanRecord 113400000 earlyStudent) = Entered"
    by (simp add: none statusToSave_def)
  have "attendanceHistory
       (qrMarkAttendance 19800000 113400000 113400000 ''r8'' (Value ''scanner'') Undefined
          (Value ''Gate'') earlyStudent)
     = [\<lparr> rec_id = ''r7'', date = 84600000, status = Entered, entryTime = Some 84600000,
          leaveTime = None, verifiedBy = None, scanLocation = ''Gate'',
          deviceInfo = Some ''scanner'' \<rparr>]"
    unfolding qrMarkAttendance_def Let_def st
    by (simp add: markAttendance_history_upd[OF today] updateRecord_def Let_def)
      (simp add: earlyStudent_eval)
  with today none st show ?thesis
    by (simp add: earlyStudent_eval)
qed

section \<open>Statistics over a date range\<close>

text \<open>
  Claim C10, as the code has it.  getAttendanceStats counts a record of the range as
  present only when its status is exactly \<open>present\<close> and as absent only when it is
  exactly \<open>absent\<close>; records with status \<open>entered\<close> or \<open>left\<close> count towards the total
  and towards neither bucket.  The percentage is 0 when the range holds no record, and
  otherwise the double \<open>(present / total) * 100\<close>: the quotient rounded to a double, times
  100, rounded to a double.  It lies within a relative error of \<open>2^-51\<close> of 100 times the
  number of \<open>present\<close> records over the number of records of the range.
\<close>

theorem getAttendanceStats_buckets:
  "total (getAttendanceStats a b s) = length (inRange a b s) \<and>
   present (getAttendanceStats a b s)
     = length (filter (\<lambda>r. status r = Present) (inRange a b s)) \<and>
   absent (getAttendanceStats a b s)
     = length (filter (\<lambda>r. status r = Absent) (inRange a b s)) \<and>
   present (getAttendanceStats a b s) + absent (getAttendanceStats a b s)
     + length (filter (\<lambda>r. status r = Entered \<or> status r = Left) (inRange a b s))
     = total (getAttendanceStats a b s) \<and>
   percentage (getAttendanceStats a b s) =
     (if inRange a b s = [] then 0
      else toDouble (toDouble
             (of_nat (length (filter (\<lambda>r. status r = Present) (inRange a b s)))
                / of_nat (length (inRange a b s))) * 100)) \<and>
   \<bar>percentage (getAttendanceStats a b s)
      - 100 * of_nat (length (filter (\<lambda>r. status r = Present) (inRange a b s)))
          / of_nat (length (inRange a b s))\<bar>
     \<le> (100 * of_nat (length (filter (\<lambda>r. status r = Present) (inRange a b s)))
          / of_nat (length (inRange a b s))) / 2 ^ 51"
proof -
  define rs where "rs = inRange a b s"
  define st0 where "st0 = \<lparr> total = length rs, present = 0, absent = 0, percentage = 0 \<rparr>"
  define p where "p = length (filter (\<lambda>r. status r = Present) rs)"
  have g: "getAttendanceStats a b s =
      (fold tally rs st0)
        \<lparr> percentage :=
            (if total (fold tally rs st0) > 0
             then percentOf (present (fold tally rs st0)) (total (fold tally rs st0))
             else 0) \<rparr>"
    unfolding getAttendanceStats_def inRange_def rs_def st0_def Let_def
    by (simp add: conj_commute)
  have t: "total (getAttendanceStats a b s) = length rs"
    by (simp add: g fold_tally_total st0_def)
  have pr: "present (getAttendanceStats a b s) = p"
    by (simp add: g fold_tally_present st0_def p_def)
  have ab: "absent (getAttendanceStats a b s) = length (filter (\<lambda>r. status r = Absent) rs)"
    by (simp add: g fold_tally_absent st0_def)
  have pc: "percentage (getAttendanceStats a b s)
      = (if rs = [] then 0 else percentOf p (length rs))"
    by (simp add: g fold_tally_total fold_tally_present st0_def p_def)
  have pc': "percentage (getAttendanceStats a b s) =
      (if rs = [] then 0 else toDouble (toDouble (of_nat p / of_nat (length rs)) * 100))"
    by (simp add: pc percentOf_def)
  have near: "\<bar>percentage (getAttendanceStats a b s) - 100 * of_nat p / of_nat (length rs)\<bar>
      \<le> (100 * of_nat p / of_nat (length rs)) / 2 ^ 51"
    using percentOf_error[of p "length rs"] by (cases "rs = []") (simp_all add: pc)
  show ?thesis
    unfolding rs_def[symmetric] p_def[symmetric]
    using t pr ab pc' near status_partition[of rs] by (simp add: p_def)
qed

text \<open>The claim as stated fails: with one \<open>present\<close> record among the three of the
  range, the percentage is the double 33.33333333333333, which is neither 100 / 3 nor the
  double nearest to it.\<close>

theorem range_percentage_counterexample:
  "total (getAttendanceStats 864000000 1036801000 threeDayStudent) = 3 \<and>
   present (getAttendanceStats 864000000 1036801000 threeDayStudent) = 1 \<and>
   percentage (getAttendanceStats 864000000 1036801000 threeDayStudent)
     = 2345624805922133 / 70368744177664 \<and>
   percentage (getAttendanceStats 864000000 1036801000 threeDayStudent) \<noteq> 100 * 1 / 3 \<and>
   percentage (getAttendanceStats 864000000 1036801000 threeDayStudent)
     \<noteq> toDouble (100 * 1 / 3)"
proof -
  have d: "toDouble (100 * 1 / 3) = 4691249611844267 / 140737488355328"
    by code_simp
  have e: "getAttendanceStats 864000000 1036801000 threeDayStudent
      = \<lparr> total = 3, present = 1, absent = 2, percentage = percentOf 1 3 \<rparr>"
    by (simp add: getAttendanceStats_def threeDayStudent_def dayRecord_def Let_def
        numeral_3_eq_3)
  show ?thesis
    unfolding e percentOf_1_3 d by simp
qed

section \<open>The sticky-left rule\<close>

text \<open>
  Claim C1.  When a record of the current calendar day has status \<open>left\<close>, a call of
  markAttendance with status \<open>entered\<close> or \<open>present\<close> on that day appends nothing and
  leaves that record's status \<open>left\<close>.  Its id, date and leave time stay as they were;
  its entry time is set to the time of the call only when it was unset and the record is
  the one the call resolves as today's.  (The administrator, the scan location and the
  device information of today's record may be overwritten.)
\<close>

theorem sticky_left:
  assumes k: "k < length (attendanceHistory s)"
    and today: "toDateString tz (date (attendanceHistory s ! k)) = toDateString tz now"
    and left: "status (attendanceHistory s ! k) = Left"
    and st: "st = Entered \<or> st = Present"
  shows "length (attendanceHistory (markAttendance tz now newId st adminId devInfo scanLoc s))
           = length (attendanceHistory s) \<and>
         status (attendanceHistory (markAttendance tz now newId st adminId devInfo scanLoc s) ! k)
           = Left \<and>
         rec_id (attendanceHistory (markAttendance tz now newId st adminId devInfo scanLoc s) ! k)
           = rec_id (attendanceHistory s ! k) \<and>
         date (attendanceHistory (markAttendance tz now newId st adminId devInfo scanLoc s) ! k)
           = date (attendanceHistory s ! k) \<and>
         leaveTime (attendanceHistory (markAttendance tz now newId st adminId devInfo scanLoc s) ! k)
           = leaveTime (attendanceHistory s ! k) \<and>
         entryTime (attendanceHistory (markAttendance tz now newId st adminId devInfo scanLoc s) ! k)
           = (if entryTime (attendanceHistory s ! k) = None
                 \<and> findIndex (isToday tz now) (attendanceHistory s) = Some k
              then Some now else entryTime (attendanceHistory s ! k))"
proof -
  let ?h = "attendanceHistory s"
  have "isToday tz now (?h ! k)"
    using today by (simp add: isToday_iff)
  with k have "findIndex (isToday tz now) ?h \<noteq> None"
    by (auto simp: findIndex_None)
  then obtain i where i: "findIndex (isToday tz now) ?h = Some i"
    by blast
  have h': "attendanceHistory (markAttendance tz now newId st adminId devInfo scanLoc s)
      = ?h[i := updateRecord now st (paramDefault adminId None) (paramDefault devInfo None)
                  (paramDefault scanLoc (Some ''Main Entrance'')) (?h ! i)]"
    by (rule markAttendance_history_upd[OF i])
  show ?thesis
  proof (cases "i = k")
    case True
    then show ?thesis
      using h' k i
        updateRecord_sticky[OF left st, of now "paramDefault adminId None"
          "paramDefault devInfo None" "paramDefault scanLoc (Some ''Main Entrance'')"]
        updateRecord_frame[of now st "paramDefault adminId None" "paramDefault devInfo None"
          "paramDefault scanLoc (Some ''Main Entrance'')" "?h ! k"]
      by auto
  next
    case False
    then show ?thesis using h' k i left by simp
  qed
qed

text \<open>After a scan in and a scan out, an administrator marks the student present: the
  status stays \<open>left\<close> and the first entry time is kept.\<close>

theorem sticky_left_witness:
  "status (attendanceHistory leftStudent ! 0) = Left \<and>
   length (attendanceHistory
     (markAttendance 0 3000 ''r3'' Present (Value ''a1'') Undefined Null leftStudent)) = 1 \<and>
   status (attendanceHistory
     (markAttendance 0 3000 ''r3'' Present (Value ''a1'') Undefined Null leftStudent) ! 0) = Left \<and>
   entryTime (attendanceHistory
     (markAttendance 0 3000 ''r3'' Present (Value ''a1'') Undefined Null leftStudent) ! 0) = Some 1000"
proof -
  have h1: "0 < length (attendanceHistory leftStudent)"
    by (simp add: leftStudent_eval)
  have h2: "toDateString 0 (date (attendanceHistory leftStudent ! 0)) = toDateString 0 3000"
    by (simp add: leftStudent_eval toDateString_def msPerDay_def)
  have h3: "status (attendanceHistory leftStudent ! 0) = Left"
    by (simp add: leftStudent_eval)
  have h4: "Present = Entered \<or> Present = Present"
    by simp
  from sticky_left[OF h1 h2 h3 h4, of "''r3''" "Value ''a1''" Undefined Null] h3
  show ?thesis
    by (simp add: leftStudent_eval)
qed

section \<open>Per-day deduplication\<close>

text \<open>
  Claim C3.  When a history holds at most one record of a calendar day, it still holds at
  most one after any sequence of markAttendance calls, at every point of the sequence.
  A single call either finds no record of its day and appends exactly one, dated at the
  time of the call, or finds one and replaces it in place by its update, which keeps the
  date.  (The administrator, the device and the location enter the record after the
  parameter defaults.)
\<close>

theorem per_day_dedup:
  assumes start: "length (recordsOn tz d (attendanceHistory s)) \<le> 1"
  shows "length (recordsOn tz d (attendanceHistory (markSequence tz (take n calls) s))) \<le> 1 \<and>
         (case findIndex (isToday tz now) (attendanceHistory s) of
            None \<Rightarrow>
              attendanceHistory (markAttendance tz now newId st adminId devInfo scanLoc s)
                = attendanceHistory s
                    @ [createRecord now newId st (paramDefault adminId None)
                         (paramDefault devInfo None)
                         (paramDefault scanLoc (Some ''Main Entrance''))] \<and>
              date (createRecord now newId st (paramDefault adminId None)
                      (paramDefault devInfo None)
                      (paramDefault scanLoc (Some ''Main Entrance''))) = now
          | Some i \<Rightarrow>
              attendanceHistory (markAttendance tz now newId st adminId devInfo scanLoc s)
                = (attendanceHistory s)
                    [i := updateRecord now st (paramDefault adminId None)
                            (paramDefault devInfo None)
                            (paramDefault scanLoc (Some ''Main Entrance''))
                            (attendanceHistory s ! i)] \<and>
              toDateString tz (date (attendanceHistory s ! i)) = toDateString tz now \<and>
              date (updateRecord now st (paramDefault adminId None)
                      (paramDefault devInfo None)
                      (paramDefault scanLoc (Some ''Main Entrance''))
                      (attendanceHistory s ! i))
                = date (attendanceHistory s ! i))"
proof -
  have a: "length (recordsOn tz d (attendanceHistory (markSequence tz (take n calls) s))) \<le> 1"
    by (rule recordsOn_sequence[OF start])
  show ?thesis
    using a findIndex_Some[of "isToday tz now" "attendanceHistory s"]
    by (auto simp: markAttendance_history_new markAttendance_history_upd createRecord_date
        updateRecord_frame isToday_iff split: option.splits)
qed

text \<open>Three calls on day 0 from a new student leave exactly one record of day 0.\<close>

theorem per_day_dedup_witness:
  "length (recordsOn 0 0 (attendanceHistory newStudent)) \<le> 1 \<and>
   length (recordsOn 0 0 (attendanceHistory
     (markSequence 0 (take 3 [scanIn, scanOut, adminPresent]) newStudent))) = 1"
proof -
  have h: "length (recordsOn 0 0 (attendanceHistory newStudent)) \<le> 1"
    by (simp add: newStudent_def recordsOn_def)
  have nonempty: "recordsOn 0 0 (attendanceHistory
      (markSequence 0 (take 3 [scanIn, scanOut, adminPresent]) newStudent)) \<noteq> []"
    by (simp add: recordsOn_def scanIn_def scanOut_def adminPresent_def ledger_defs)
  from per_day_dedup[OF h, of 3 "[scanIn, scanOut, adminPresent]" 1000 "''r1''" Entered
      Null Null Null]
  have "length (recordsOn 0 0 (attendanceHistory
      (markSequence 0 (take 3 [scanIn, scanOut, adminPresent]) newStudent))) \<le> 1"
    by blast
  with nonempty h show ?thesis
    by (cases "recordsOn 0 0 (attendanceHistory
      (markSequence 0 (take 3 [scanIn, scanOut, adminPresent]) newStudent))") auto
qed

section \<open>Marking absent on a day that has a record\<close>

text \<open>
  Claim C9, as the code has it.  When today's record exists, markAttendance with status
  \<open>absent\<close> changes, in the history, only that record, and in it only the administrator,
  the scan location and the device information; its status, entry time and leave time
  stay.  The administrator and the device information are overwritten only by a value
  that is passed and is not empty.  The scan location is overwritten by a value that is
  passed and is not empty, and also when no location is passed at all: the parameter
  default \<open>Main Entrance\<close> then replaces the stored location (a \<open>null\<close> or an empty
  string keeps it).  The attendance count stays, lastAttendance becomes the time of the
  call, and the percentage is recomputed from the history.
\<close>

theorem absent_frame:
  assumes i: "findIndex (isToday tz now) (attendanceHistory s) = Some i"
  shows "attendanceHistory (markAttendance tz now newId Absent adminId devInfo scanLoc s)
           = (attendanceHistory s)
               [i := (attendanceHistory s ! i)
                  \<lparr> verifiedBy :=
                      (case adminId of
                         Value a \<Rightarrow> if a = [] then verifiedBy (attendanceHistory s ! i)
                                    else Some a
                       | _ \<Rightarrow> verifiedBy (attendanceHistory s ! i)),
                    scanLocation :=
                      (case scanLoc of
                         Undefined \<Rightarrow> ''Main Entrance''
                       | Null \<Rightarrow> scanLocation (attendanceHistory s ! i)
                       | Value l \<Rightarrow> if l = [] then scanLocation (attendanceHistory s ! i)
                                    else l),
                    deviceInfo :=
                      (case devInfo of
                         Value d \<Rightarrow> if d = [] then deviceInfo (attendanceHistory s ! i)
                                    else Some d
                       | _ \<Rightarrow> deviceInfo (attendanceHistory s ! i)) \<rparr>] \<and>
         status (attendanceHistory (markAttendance tz now newId Absent adminId devInfo scanLoc s) ! i)
           = status (attendanceHistory s ! i) \<and>
         entryTime (attendanceHistory (markAttendance tz now newId Absent adminId devInfo scanLoc s) ! i)
           = entryTime (attendanceHistory s ! i) \<and>
         leaveTime (attendanceHistory (markAttendance tz now newId Absent adminId devInfo scanLoc s) ! i)
           = leaveTime (attendanceHistory s ! i) \<and>
         attendanceCount (markAttendance tz now newId Absent adminId devInfo scanLoc s)
           = attendanceCount s \<and>
         lastAttendance (markAttendance tz now newId Absent adminId devInfo scanLoc s)
           = Some now \<and>
         attendancePercentage (markAttendance tz now newId Absent adminId devInfo scanLoc s)
           = roundedPercentage (attendanceHistory
               (markAttendance tz now newId Absent adminId devInfo scanLoc s))"
proof -
  let ?r = "attendanceHistory s ! i"
  have upd: "updateRecord now Absent (paramDefault adminId None) (paramDefault devInfo None)
        (paramDefault scanLoc (Some ''Main Entrance'')) ?r
      = ?r\<lparr> verifiedBy :=
              (case adminId of
                 Value a \<Rightarrow> if a = [] then verifiedBy ?r else Some a
               | _ \<Rightarrow> verifiedBy ?r),
            scanLocation :=
              (case scanLoc of
                 Undefined \<Rightarrow> ''Main Entrance''
               | Null \<Rightarrow> scanLocation ?r
               | Value l \<Rightarrow> if l = [] then scanLocation ?r else l),
            deviceInfo :=
              (case devInfo of
                 Value d \<Rightarrow> if d = [] then deviceInfo ?r else Some d
               | _ \<Rightarrow> deviceInfo ?r) \<rparr>"
    by (cases adminId; cases scanLoc; cases devInfo) (simp_all add: updateRecord_absent)
  show ?thesis
    using markAttendance_history_upd[OF i, of newId Absent adminId devInfo scanLoc]
      markAttendance_count_upd[OF i, of newId Absent adminId devInfo scanLoc]
      markAttendance_lastAttendance[of tz now newId Absent adminId devInfo scanLoc s]
      markAttendance_percentage[of tz now newId Absent adminId devInfo scanLoc s]
      findIndex_Some[OF i]
    by (simp add: upd percentageOf_rounded)
qed

text \<open>The student who scanned in and out at the gate is marked absent at 3000 of the
  same day, with an empty administrator id, a new device string and a \<open>null\<close> location:
  only the device changes.\<close>

theorem absent_frame_witness:
  "findIndex (isToday 0 3000) (attendanceHistory leftStudent) = Some 0 \<and>
   attendanceHistory
       (markAttendance 0 3000 ''r4'' Absent (Value []) (Value ''kiosk'') Null leftStudent)
     = [\<lparr> rec_id = ''r1'', date = 1000, status = Left, entryTime = Some 1000,
          leaveTime = Some 2000, verifiedBy = None, scanLocation = ''Gate'',
          deviceInfo = Some ''kiosk'' \<rparr>] \<and>
   attendanceCount
       (markAttendance 0 3000 ''r4'' Absent (Value []) (Value ''kiosk'') Null leftStudent)
     = 0 \<and>
   lastAttendance
       (markAttendance 0 3000 ''r4'' Absent (Value []) (Value ''kiosk'') Null leftStudent)
     = Some 3000 \<and>
   attendancePercentage
       (markAttendance 0 3000 ''r4'' Absent (Value []) (Value ''kiosk'') Null leftStudent)
     = 0"
proof -
  have h: "findIndex (isToday 0 3000) (attendanceHistory leftStudent) = Some 0"
    by (simp add: leftStudent_eval isToday_def toDateString_def localMidnight_def msPerDay_def)
  from absent_frame[OF h, of "''r4''" "Value []" "Value ''kiosk''" Null] h
  show ?thesis
    by (simp add: leftStudent_eval roundedPercentage_def presentOrEnteredCount_def
        toDouble_zero)
qed

text \<open>The claim as stated fails: marking the same student absent with no location
  passed replaces the stored location \<open>Gate\<close> by \<open>Main Entrance\<close>.\<close>

theorem absent_location_counterexample:
  "findIndex (isToday 0 3000) (attendanceHistory leftStudent) = Some 0 \<and>
   scanLocation (attendanceHistory leftStudent ! 0) = ''Gate'' \<and>
   scanLocation (attendanceHistory
       (markAttendance 0 3000 ''r4'' Absent Undefined Undefined Undefined leftStudent) ! 0)
     = ''Main Entrance''"
  by (simp add: leftStudent_eval ledger_defs)

section \<open>Deleting a record\<close>

text \<open>
  Claim C5.  deleteAttendanceRecord throws the not-found error exactly when no record of
  the history has the given id, before it changes anything.  Otherwise it returns the
  first record with that id and the student without it: the attendance count is lowered
  by one, not below 0, exactly when the deleted record's status was \<open>present\<close> or
  \<open>entered\<close>; the percentage is the one of the remaining history (0 when it is empty),
  computed in doubles, which is within a relative error of \<open>2^-51\<close> of the exact one;
  lastAttendance is the date of the latest remaining record, or null when none remains.
\<close>

theorem delete_contract:
  "(deleteAttendanceRecord recordId s = Inl NotFound
      \<longleftrightarrow> (\<forall>r \<in> set (attendanceHistory s). rec_id r \<noteq> recordId)) \<and>
   (\<forall>i. findIndex (\<lambda>r. rec_id r = recordId) (attendanceHistory s) = Some i \<longrightarrow>
      i < length (attendanceHistory s) \<and> rec_id (attendanceHistory s ! i) = recordId \<and>
      deleteAttendanceRecord recordId s =
        Inr (attendanceHistory s ! i,
             s\<lparr> attendanceHistory :=
                  take i (attendanceHistory s) @ drop (Suc i) (attendanceHistory s),
                attendanceCount :=
                  (if status (attendanceHistory s ! i) = Present
                      \<or> status (attendanceHistory s ! i) = Entered
                   then max 0 (attendanceCount s - 1) else attendanceCount s),
                attendancePercentage :=
                  roundedPercentage
                    (take i (attendanceHistory s) @ drop (Suc i) (attendanceHistory s)),
                lastAttendance :=
                  latestDate
                    (take i (attendanceHistory s) @ drop (Suc i) (attendanceHistory s)) \<rparr>)) \<and>
   \<bar>roundedPercentage h - specPercentage h\<bar> \<le> specPercentage h / 2 ^ 51"
proof (intro conjI allI impI)
  show "deleteAttendanceRecord recordId s = Inl NotFound
      \<longleftrightarrow> (\<forall>r \<in> set (attendanceHistory s). rec_id r \<noteq> recordId)"
    by (rule delete_NotFound)
next
  fix i
  assume i: "findIndex (\<lambda>r. rec_id r = recordId) (attendanceHistory s) = Some i"
  from findIndex_Some[OF i] show "i < length (attendanceHistory s)" by simp
  from findIndex_Some[OF i] show "rec_id (attendanceHistory s ! i) = recordId" by simp
  from delete_success[OF i]
  show "deleteAttendanceRecord recordId s =
        Inr (attendanceHistory s ! i,
             s\<lparr> attendanceHistory :=
                  take i (attendanceHistory s) @ drop (Suc i) (attendanceHistory s),
                attendanceCount :=
                  (if status (attendanceHistory s ! i) = Present
                      \<or> status (attendanceHistory s ! i) = Entered
                   then max 0 (attendanceCount s - 1) else attendanceCount s),
                attendancePercentage :=
                  roundedPercentage
                    (take i (attendanceHistory s) @ drop (Suc i) (attendanceHistory s)),
                lastAttendance :=
                  latestDate
                    (take i (attendanceHistory s) @ drop (Suc i) (attendanceHistory s)) \<rparr>)" .
next
  show "\<bar>roundedPercentage h - specPercentage h\<bar> \<le> specPercentage h / 2 ^ 51"
    by (rule roundedPercentage_near)
qed

text \<open>Deleting the \<open>present\<close> record of the two-day student, and an id it does not have.\<close>

theorem delete_contract_witness:
  "deleteAttendanceRecord ''r9'' twoDayStudent = Inl NotFound \<and>
   findIndex (\<lambda>r. rec_id r = ''r3'') (attendanceHistory twoDayStudent) = Some 0 \<and>
   deleteAttendanceRecord ''r3'' twoDayStudent =
     Inr (\<lparr> rec_id = ''r3'', date = 3000, status = Present, entryTime = Some 3000,
            leaveTime = None, verifiedBy = Some ''a1'', scanLocation = ''Main Entrance'',
            deviceInfo = None \<rparr>,
          \<lparr> attendanceCount = 0,
            attendanceHistory =
              [\<lparr> rec_id = ''r5'', date = 86401000, status = Entered,
                 entryTime = Some 86401000, leaveTime = None, verifiedBy = None,
                 scanLocation = ''Gate'', deviceInfo = Some ''scanner'' \<rparr>],
            lastAttendance = Some 86401000, attendancePercentage = 100 \<rparr>)"
proof -
  have none: "\<forall>r \<in> set (attendanceHistory twoDayStudent). rec_id r \<noteq> ''r9''"
    by (simp add: twoDayStudent_eval)
  have h: "findIndex (\<lambda>r. rec_id r = ''r3'') (attendanceHistory twoDayStudent) = Some 0"
    by (simp add: twoDayStudent_eval)
  from delete_contract[of "''r9''" twoDayStudent] none
  have a: "deleteAttendanceRecord ''r9'' twoDayStudent = Inl NotFound"
    by blast
  from delete_contract[of "''r3''" twoDayStudent] h
  have "deleteAttendanceRecord ''r3'' twoDayStudent =
        Inr (attendanceHistory twoDayStudent ! 0,
             twoDayStudent\<lparr> attendanceHistory :=
                  take 0 (attendanceHistory twoDayStudent)
                    @ drop (Suc 0) (attendanceHistory twoDayStudent),
                attendanceCount :=
                  (if status (attendanceHistory twoDayStudent ! 0) = Present
                      \<or> status (attendanceHistory twoDayStudent ! 0) = Entered
                   then max 0 (attendanceCount twoDayStudent - 1)
                   else attendanceCount twoDayStudent),
                attendancePercentage :=
                  roundedPercentage
                    (take 0 (attendanceHistory twoDayStudent)
                       @ drop (Suc 0) (attendanceHistory twoDayStudent)),
                lastAttendance :=
                  latestDate
                    (take 0 (attendanceHistory twoDayStudent)
                       @ drop (Suc 0) (attendanceHistory twoDayStudent)) \<rparr>)"
    by blast
  then have b: "deleteAttendanceRecord ''r3'' twoDayStudent =
     Inr (\<lparr> rec_id = ''r3'', date = 3000, status = Present, entryTime = Some 3000,
            leaveTime = None, verifiedBy = Some ''a1'', scanLocation = ''Main Entrance'',
            deviceInfo = None \<rparr>,
          \<lparr> attendanceCount = 0,
            attendanceHistory =
              [\<lparr> rec_id = ''r5'', date = 86401000, status = Entered,
                 entryTime = Some 86401000, leaveTime = None, verifiedBy = None,
                 scanLocation = ''Gate'', deviceInfo = Some ''scanner'' \<rparr>],
            lastAttendance = Some 86401000, attendancePercentage = 100 \<rparr>)"
    by (simp add: twoDayStudent_eval roundedPercentage_def presentOrEnteredCount_def
        toDouble_one toDouble_hundred)
  from a h b show ?thesis by simp
qed

section \<open>The cached counters\<close>

text \<open>
  Claim C2, as the code has it.  After markAttendance, after a deleteAttendanceRecord
  that does not throw, and after clearAttendanceHistory, attendancePercentage is 0 for an
  empty history and otherwise the double \<open>(present / total) * 100\<close>, where \<open>present\<close> is
  the number of records with status \<open>present\<close> or \<open>entered\<close>: the quotient rounded to a
  double, times 100, rounded to a double.  This value lies within a relative error of
  \<open>2^-51\<close> of 100 times the number of such records over the number of records; it is
  exactly 100 when every record is such a record and exactly 0 when none is.  An
  attendanceCount that was not negative is not negative afterwards (it is 0 after a
  clear).  Both hold in every state that any sequence of the three operations reaches
  from a new student.
\<close>

theorem cache_consistency:
  "attendancePercentage (markAttendance tz now newId st adminId devInfo scanLoc s)
     = roundedPercentage
         (attendanceHistory (markAttendance tz now newId st adminId devInfo scanLoc s)) \<and>
   (0 \<le> attendanceCount s \<longrightarrow>
      0 \<le> attendanceCount (markAttendance tz now newId st adminId devInfo scanLoc s)) \<and>
   (\<forall>r s'. deleteAttendanceRecord recordId s = Inr (r, s') \<longrightarrow>
      attendancePercentage s' = roundedPercentage (attendanceHistory s') \<and>
      (0 \<le> attendanceCount s \<longrightarrow> 0 \<le> attendanceCount s')) \<and>
   attendancePercentage (clearAttendanceHistory s)
     = roundedPercentage (attendanceHistory (clearAttendanceHistory s)) \<and>
   attendanceCount (clearAttendanceHistory s) = 0 \<and>
   0 \<le> attendanceCount (runOps tz ops newStudent) \<and>
   attendancePercentage (runOps tz ops newStudent)
     = roundedPercentage (attendanceHistory (runOps tz ops newStudent)) \<and>
   \<bar>roundedPercentage h - specPercentage h\<bar> \<le> specPercentage h / 2 ^ 51 \<and>
   (h \<noteq> [] \<and> presentOrEnteredCount h = length h \<longrightarrow> roundedPercentage h = 100) \<and>
   (presentOrEnteredCount h = 0 \<longrightarrow> roundedPercentage h = 0)"
proof -
  have new: "0 \<le> attendanceCount newStudent"
    "attendancePercentage newStudent = roundedPercentage (attendanceHistory newStudent)"
    by (simp_all add: newStudent_def roundedPercentage_def)
  have clear: "attendancePercentage (clearAttendanceHistory s)
      = roundedPercentage (attendanceHistory (clearAttendanceHistory s))"
    "attendanceCount (clearAttendanceHistory s) = 0"
    by (simp_all add: clearAttendanceHistory_def roundedPercentage_def)
  show ?thesis
    using runOps_invariant[OF new, of tz ops] clear
      markAttendance_percentage[of tz now newId st adminId devInfo scanLoc s]
      markAttendance_count_nonneg[of s tz now newId st adminId devInfo scanLoc]
      delete_percentage[of recordId s] delete_count_nonneg[of recordId s]
      roundedPercentage_near[of h] roundedPercentage_all[of h] roundedPercentage_none[of h]
    by (simp add: percentageOf_rounded)
qed

text \<open>The two-day student is marked present again on day 1, and loses the record of
  day 0; both of the records count, and so does the one that remains.\<close>

theorem cache_consistency_witness:
  "0 \<le> attendanceCount twoDayStudent \<and>
   attendanceCount
       (markAttendance 0 86402000 ''r6'' Present (Value ''a1'') Undefined Undefined twoDayStudent)
     \<ge> 0 \<and>
   attendancePercentage
       (markAttendance 0 86402000 ''r6'' Present (Value ''a1'') Undefined Undefined twoDayStudent)
     = roundedPercentage (attendanceHistory
         (markAttendance 0 86402000 ''r6'' Present (Value ''a1'') Undefined Undefined
            twoDayStudent)) \<and>
   (\<exists>r s'. deleteAttendanceRecord ''r3'' twoDayStudent = Inr (r, s') \<and>
      attendancePercentage s' = roundedPercentage (attendanceHistory s') \<and>
      0 \<le> attendanceCount s') \<and>
   roundedPercentage (attendanceHistory twoDayStudent) = 100 \<and>
   roundedPercentage (attendanceHistory leftStudent) = 0"
proof -
  have h: "0 \<le> attendanceCount twoDayStudent"
    by (simp add: twoDayStudent_eval)
  obtain r s' where d: "deleteAttendanceRecord ''r3'' twoDayStudent = Inr (r, s')"
    by (simp add: deleteAttendanceRecord_def twoDayStudent_eval Let_def)
  have all: "attendanceHistory twoDayStudent \<noteq> [] \<and>
      presentOrEnteredCount (attendanceHistory twoDayStudent)
        = length (attendanceHistory twoDayStudent)"
    by (simp add: twoDayStudent_eval presentOrEnteredCount_def)
  have none: "presentOrEnteredCount (attendanceHistory leftStudent) = 0"
    by (simp add: leftStudent_eval presentOrEnteredCount_def)
  from cache_consistency[of 0 86402000 "''r6''" Present "Value ''a1''" Undefined Undefined
      twoDayStudent "''r3''" "[]" "attendanceHistory twoDayStudent"] h d all
  have a: "attendanceCount
       (markAttendance 0 86402000 ''r6'' Present (Value ''a1'') Undefined Undefined twoDayStudent)
     \<ge> 0 \<and>
   attendancePercentage
       (markAttendance 0 86402000 ''r6'' Present (Value ''a1'') Undefined Undefined twoDayStudent)
     = roundedPercentage (attendanceHistory
         (markAttendance 0 86402000 ''r6'' Present (Value ''a1'') Undefined Undefined
            twoDayStudent)) \<and>
   (\<exists>r s'. deleteAttendanceRecord ''r3'' twoDayStudent = Inr (r, s') \<and>
      attendancePercentage s' = roundedPercentage (attendanceHistory s') \<and>
      0 \<le> attendanceCount s') \<and>
   roundedPercentage (attendanceHistory twoDayStudent) = 100"
    by blast
  from cache_consistency[of 0 86402000 "''r6''" Present "Value ''a1''" Undefined Undefined
      twoDayStudent "''r3''" "[]" "attendanceHistory leftStudent"] none
  have b: "roundedPercentage (attendanceHistory leftStudent) = 0"
    by blast
  from h a b show ?thesis by blast
qed

text \<open>The claim as stated fails twice.  Marking a student present twice on one day gives
  the history of marking once, and an attendance count of 2 against 1.  And when the
  twentieth record is added to nineteen of which eleven are \<open>present\<close>, the percentage is
  the double 55.00000000000001, where 100 times 11 over 20 is 55.\<close>

theorem cache_consistency_counterexample:
  "attendanceHistory (markSequence 0 [adminPresent, adminPresentAgain] newStudent)
     = attendanceHistory (markSequence 0 [adminPresent] newStudent) \<and>
   attendanceCount (markSequence 0 [adminPresent, adminPresentAgain] newStudent) = 2 \<and>
   attendanceCount (markSequence 0 [adminPresent] newStudent) = 1 \<and>
   length (attendanceHistory
       (markAttendance 0 1641601000 ''n'' Absent (Value ''a1'') Undefined Undefined
          nineteenDayStudent)) = 20 \<and>
   presentOrEnteredCount (attendanceHistory
       (markAttendance 0 1641601000 ''n'' Absent (Value ''a1'') Undefined Undefined
          nineteenDayStudent)) = 11 \<and>
   specPercentage (attendanceHistory
       (markAttendance 0 1641601000 ''n'' Absent (Value ''a1'') Undefined Undefined
          nineteenDayStudent)) = 55 \<and>
   attendancePercentage
       (markAttendance 0 1641601000 ''n'' Absent (Value ''a1'') Undefined Undefined
          nineteenDayStudent)
     = 7740561859543041 / 140737488355328"
proof -
  let ?m = "markAttendance 0 1641601000 ''n'' Absent (Value ''a1'') Undefined Undefined
      nineteenDayStudent"
  have drift: "attendanceHistory (markSequence 0 [adminPresent, adminPresentAgain] newStudent)
       = attendanceHistory (markSequence 0 [adminPresent] newStudent) \<and>
     attendanceCount (markSequence 0 [adminPresent, adminPresentAgain] newStudent) = 2 \<and>
     attendanceCount (markSequence 0 [adminPresent] newStudent) = 1"
    by (simp add: adminPresent_def adminPresentAgain_def ledger_defs)
  have days: "\<forall>r \<in> set (map dayRecord [0..<19]).
      toDateString 0 (date r) \<noteq> toDateString 0 1641601000"
    by (auto simp: dayRecord_def toDateString_def msPerDay_def)
  then have none: "findIndex (isToday 0 1641601000) (attendanceHistory nineteenDayStudent) = None"
    by (simp add: findIndex_None isToday_iff nineteenDayStudent_def)
  have hist: "attendanceHistory ?m
      = map dayRecord [0..<19]
          @ [createRecord 1641601000 ''n'' Absent (Some ''a1'') None (Some ''Main Entrance'')]"
    using markAttendance_history_new[OF none, of "''n''" Absent "Value ''a1''" Undefined Undefined]
    by (simp add: nineteenDayStudent_def)
  have len: "length (attendanceHistory ?m) = 20"
    by (simp add: hist)
  have "filter (\<lambda>r. status r = Present \<or> status r = Entered) (map dayRecord [0..<19])
      = map dayRecord [0..<11]"
    by (simp add: filter_map comp_def dayRecord_def upt_rec[of 0] upt_rec[of "Suc _"]
        del: upt_Suc)
  then have cnt: "presentOrEnteredCount (attendanceHistory ?m) = 11"
    by (simp add: presentOrEnteredCount_def hist createRecord_def)
  have spec: "specPercentage (attendanceHistory ?m) = 55"
    by (simp add: specPercentage_def len cnt)
  have "attendancePercentage ?m = roundedPercentage (attendanceHistory ?m)"
    by (simp add: markAttendance_percentage percentageOf_rounded)
  also have "\<dots> = percentOf 11 20"
    by (simp add: roundedPercentage_def len cnt percentOf_def)
  finally have pct: "attendancePercentage ?m = 7740561859543041 / 140737488355328"
    by (simp add: percentOf_11_20)
  from drift len cnt spec pct show ?thesis by blast
qed

section \<open>lastAttendance\<close>

text \<open>
  Claim C6, as the code has it.  markAttendance sets lastAttendance to the time of the
  call.  That is the date of the latest record when the call created today's record and
  no record is dated later; when the call updated today's record, the record keeps its
  earlier date, and lastAttendance falls on the same calendar day as it.  After a
  deleteAttendanceRecord that does not throw, and after clearAttendanceHistory,
  lastAttendance is the date of the latest record, or null for an empty history.
\<close>

theorem last_attendance_rule:
  "lastAttendance (markAttendance tz now newId st adminId devInfo scanLoc s) = Some now \<and>
   (findIndex (isToday tz now) (attendanceHistory s) = None
      \<and> (\<forall>r \<in> set (attendanceHistory s). date r \<le> now) \<longrightarrow>
    lastAttendance (markAttendance tz now newId st adminId devInfo scanLoc s)
      = latestDate (attendanceHistory (markAttendance tz now newId st adminId devInfo scanLoc s))) \<and>
   (\<forall>i. findIndex (isToday tz now) (attendanceHistory s) = Some i \<longrightarrow>
      date (attendanceHistory (markAttendance tz now newId st adminId devInfo scanLoc s) ! i)
        = date (attendanceHistory s ! i) \<and>
      toDateString tz (date (attendanceHistory s ! i)) = toDateString tz now) \<and>
   (\<forall>r s'. deleteAttendanceRecord recordId s = Inr (r, s') \<longrightarrow>
      lastAttendance s' = latestDate (attendanceHistory s')) \<and>
   lastAttendance (clearAttendanceHistory s)
     = latestDate (attendanceHistory (clearAttendanceHistory s)) \<and>
   lastAttendance (clearAttendanceHistory s) = None"
proof -
  let ?m = "markAttendance tz now newId st adminId devInfo scanLoc s"
  have a: "lastAttendance ?m = Some now"
    by (rule markAttendance_lastAttendance)
  have b: "lastAttendance ?m = latestDate (attendanceHistory ?m)"
    if "findIndex (isToday tz now) (attendanceHistory s) = None"
      and "\<forall>r \<in> set (attendanceHistory s). date r \<le> now"
    using that latestDate_snoc[of "attendanceHistory s"
        "createRecord now newId st (paramDefault adminId None) (paramDefault devInfo None)
           (paramDefault scanLoc (Some ''Main Entrance''))"]
    by (simp add: a markAttendance_history_new createRecord_date)
  have c: "date (attendanceHistory ?m ! i) = date (attendanceHistory s ! i) \<and>
      toDateString tz (date (attendanceHistory s ! i)) = toDateString tz now"
    if "findIndex (isToday tz now) (attendanceHistory s) = Some i" for i
    using that findIndex_Some[OF that]
    by (simp add: markAttendance_history_upd updateRecord_frame isToday_iff)
  have d: "lastAttendance (clearAttendanceHistory s)
      = latestDate (attendanceHistory (clearAttendanceHistory s))"
    "lastAttendance (clearAttendanceHistory s) = None"
    by (simp_all add: clearAttendanceHistory_def)
  show ?thesis
    using a b c d delete_lastAttendance[of recordId s] by blast
qed

text \<open>The first scan of a new student, the second scan of the day, and a deletion.\<close>

theorem last_attendance_rule_witness:
  "findIndex (isToday 0 1000) (attendanceHistory newStudent) = None \<and>
   lastAttendance (markAttendance 0 1000 ''r1'' Entered Null Null Null newStudent)
     = latestDate (attendanceHistory
         (markAttendance 0 1000 ''r1'' Entered Null Null Null newStudent)) \<and>
   findIndex (isToday 0 3000) (attendanceHistory leftStudent) = Some 0 \<and>
   date (attendanceHistory
       (markAttendance 0 3000 ''r1'' Entered Null Null Null leftStudent) ! 0) = 1000 \<and>
   lastAttendance (markAttendance 0 3000 ''r1'' Entered Null Null Null leftStudent) = Some 3000 \<and>
   (\<exists>r s'. deleteAttendanceRecord ''r3'' twoDayStudent = Inr (r, s') \<and>
      lastAttendance s' = latestDate (attendanceHistory s'))"
proof -
  have h1: "findIndex (isToday 0 1000) (attendanceHistory newStudent) = None"
    by (simp add: newStudent_def)
  have h2: "\<forall>r \<in> set (attendanceHistory newStudent). date r \<le> 1000"
    by (simp add: newStudent_def)
  have h3: "findIndex (isToday 0 3000) (attendanceHistory leftStudent) = Some 0"
    by (simp add: leftStudent_eval isToday_def toDateString_def localMidnight_def msPerDay_def)
  obtain r s' where d: "deleteAttendanceRecord ''r3'' twoDayStudent = Inr (r, s')"
    by (simp add: deleteAttendanceRecord_def twoDayStudent_eval Let_def)
  have k: "date (attendanceHistory leftStudent ! 0) = 1000"
    by (simp add: leftStudent_eval)
  from last_attendance_rule[of 0 1000 "''r1''" Entered Null Null Null newStudent "''r3''"] h1 h2
  have a: "lastAttendance (markAttendance 0 1000 ''r1'' Entered Null Null Null newStudent)
     = latestDate (attendanceHistory
         (markAttendance 0 1000 ''r1'' Entered Null Null Null newStudent))"
    by blast
  from last_attendance_rule[of 0 3000 "''r1''" Entered Null Null Null leftStudent "''r3''"] h3 k
  have b: "date (attendanceHistory
       (markAttendance 0 3000 ''r1'' Entered Null Null Null leftStudent) ! 0) = 1000 \<and>
     lastAttendance (markAttendance 0 3000 ''r1'' Entered Null Null Null leftStudent) = Some 3000"
    by simp
  from last_attendance_rule[of 0 3000 "''r1''" Entered Null Null Null twoDayStudent "''r3''"] d
  have c: "lastAttendance s' = latestDate (attendanceHistory s')"
    by blast
  from h1 a h3 b c d show ?thesis by blast
qed

text \<open>The claim as stated fails: after a scan in at 1000 and a scan out at 2000 the only
  record is dated 1000, and lastAttendance is 2000.\<close>

theorem last_attendance_counterexample:
  "leftStudent = markAttendance 0 2000 ''r2'' Left Null (Value ''scanner'') (Value ''Gate'')
     (markAttendance 0 1000 ''r1'' Entered Null (Value ''scanner'') (Value ''Gate'') newStudent) \<and>
   latestDate (attendanceHistory leftStudent) = Some 1000 \<and>
   lastAttendance leftStudent = Some 2000 \<and>
   lastAttendance leftStudent \<noteq> latestDate (attendanceHistory leftStudent)"
  by (simp add: leftStudent_eval)
    (simp add: leftStudent_eval[symmetric] leftStudent_def scanIn_def scanOut_def applyCall_def)

section \<open>The history query\<close>

text \<open>
  Claim C7.  For a fixed date range, the stats of getFilteredAttendanceHistory, and its
  count of filtered records, are the same for all values of limit and offset.  The stats
  are: the number of records of the whole history, the number of records in the date
  range, the number of records of the whole history with status \<open>present\<close> or
  \<open>entered\<close>, the number with status \<open>absent\<close>, and the cached percentage of the
  student.
\<close>

theorem stats_pagination_independent:
  "stats (getFilteredAttendanceHistory tz (opts\<lparr>limit := l1, offset := off1\<rparr>) s)
     = stats (getFilteredAttendanceHistory tz (opts\<lparr>limit := l2, offset := off2\<rparr>) s) \<and>
   totalRecords (getFilteredAttendanceHistory tz (opts\<lparr>limit := l1, offset := off1\<rparr>) s)
     = totalRecords (getFilteredAttendanceHistory tz (opts\<lparr>limit := l2, offset := off2\<rparr>) s) \<and>
   stats (getFilteredAttendanceHistory tz opts s)
     = \<lparr> totalCount = length (attendanceHistory s),
         filteredCount = length (filter (withinBounds tz opts) (attendanceHistory s)),
         presentCount = presentOrEnteredCount (attendanceHistory s),
         absentCount = length (filter (\<lambda>r. status r = Absent) (attendanceHistory s)),
         cachedPercentage = attendancePercentage s \<rparr>"
  by (simp add: getFilteredAttendanceHistory_def Let_def length_sort_cmp
      filterHistory_bounds withinBounds_pagination presentOrEnteredCount_def
      countsAsPresent_def[abs_def])

section \<open>The bounds of the date range\<close>

text \<open>
  Claim C8, as the code has it.  getFilteredAttendanceHistory keeps exactly the records
  that are dated at or after the start instant itself, when a start date is given (the
  code does not move the start to midnight), and at or before 23:59:59.999 of the local
  day of the end instant, when an end date is given, that is, those whose local day is
  not after the end date's.  Each bound is optional and applies on its own.  Without a
  limit, the records returned are these, sorted; with any limit, their number is the
  count of filtered records.
\<close>

theorem date_range_filter:
  "filterHistory tz opts (attendanceHistory s)
     = filter (withinBounds tz opts) (attendanceHistory s) \<and>
   mset (records (getFilteredAttendanceHistory tz (opts\<lparr>limit := NoLimit\<rparr>) s))
     = mset (filter (withinBounds tz opts) (attendanceHistory s)) \<and>
   totalRecords (getFilteredAttendanceHistory tz opts s)
     = length (filter (withinBounds tz opts) (attendanceHistory s)) \<and>
   withinBounds tz (opts\<lparr>startDate := DateAt a, endDate := NoDate\<rparr>) r = (a \<le> date r) \<and>
   withinBounds tz (opts\<lparr>startDate := NoDate, endDate := DateAt e\<rparr>) r
     = (date r \<le> localMidnight tz e + 86399999) \<and>
   withinBounds tz (opts\<lparr>startDate := NoDate, endDate := DateAt e\<rparr>) r
     = (toDateString tz (date r) \<le> toDateString tz e) \<and>
   withinBounds tz (opts\<lparr>startDate := DateAt a, endDate := DateAt e\<rparr>) r
     = (a \<le> date r \<and> date r \<le> localMidnight tz e + 86399999) \<and>
   withinBounds tz (opts\<lparr>startDate := NoDate, endDate := NoDate\<rparr>) r"
proof -
  have f: "filterHistory tz (opts\<lparr>limit := NoLimit\<rparr>) (attendanceHistory s)
      = filter (withinBounds tz opts) (attendanceHistory s)"
    by (simp add: filterHistory_bounds withinBounds_pagination)
  have m: "mset (records (getFilteredAttendanceHistory tz (opts\<lparr>limit := NoLimit\<rparr>) s))
      = mset (filter (withinBounds tz opts) (attendanceHistory s))"
    by (simp add: getFilteredAttendanceHistory_def Let_def paginate_def mset_sort_cmp f
        del: mset_filter)
  have t: "totalRecords (getFilteredAttendanceHistory tz opts s)
      = length (filter (withinBounds tz opts) (attendanceHistory s))"
    by (simp add: getFilteredAttendanceHistory_def Let_def length_sort_cmp filterHistory_bounds)
  show ?thesis
    using m t endOfDay_day[of "date r" tz e]
    by (simp add: filterHistory_bounds withinBounds_def)
qed

text \<open>The claim as stated fails: a record dated 00:00:03 of day 0 is after the midnight
  that starts the day of a start date of 10:00, and the query drops it.\<close>

theorem start_bound_counterexample:
  "map date (attendanceHistory presentStudent) = [3000] \<and>
   localMidnight 0 36000000 \<le> 3000 \<and>
   records (getFilteredAttendanceHistory 0 lateStartQuery presentStudent) = []"
  by (simp add: presentStudent_eval lateStartQuery_def getFilteredAttendanceHistory_def
      filterHistory_def paginate_def sort_cmp_def localMidnight_def toDateString_def
      msPerDay_def Let_def)

end
